theory Spec2Isabelle
  imports Complex_Main
begin

section \<open>Python values\<close>

text \<open>
  The two front ends (\<^verbatim>\<open>scraper.py\<close> and \<^verbatim>\<open>src/objectwire/cli.py\<close>) share the pipeline
  scrape, analyze, publish. A Python string is a list of characters, each character a
  code point below 256 (ASCII and the Latin-1 supplement); text with other code points
  is outside the model. Python integers are \<open>int\<close>, and Python floats are idealised as \<open>real\<close> (the development only ever compares the
  literals 0.5 and 0.7). A value returned by \<^verbatim>\<open>json.loads\<close> is a \<open>json\<close>; \<open>JNull\<close> is
  Python's \<^verbatim>\<open>None\<close>. An object keeps its members in document order; a key that occurs
  twice reads as its last occurrence, as a Python dict built in that order does.
\<close>

datatype json =
    JNull
  | JBool bool
  | JInt int
  | JFloat real
  | JStr string
  | JArr "json list"
  | JObj "(string \<times> json) list"

datatype py_error =
  TypeError | ValueError | OverflowError | AttributeError | ValidationError | IndexError

text \<open>\<^verbatim>\<open>bool(v)\<close>: the truth value that \<^verbatim>\<open>or\<close>, \<^verbatim>\<open>and\<close>, \<^verbatim>\<open>not\<close> and \<^verbatim>\<open>if\<close> test.\<close>

fun truthy :: "json \<Rightarrow> bool" where
  "truthy JNull = False"
| "truthy (JBool b) = b"
| "truthy (JInt i) = (i \<noteq> 0)"
| "truthy (JFloat r) = (r \<noteq> 0)"
| "truthy (JStr s) = (s \<noteq> [])"
| "truthy (JArr xs) = (xs \<noteq> [])"
| "truthy (JObj kvs) = (kvs \<noteq> [])"

text \<open>\<^verbatim>\<open>a or b\<close> on values: \<^verbatim>\<open>a\<close> when it is truthy, else \<^verbatim>\<open>b\<close>.\<close>

definition py_or :: "json \<Rightarrow> json \<Rightarrow> json" where
  "py_or a b = (if truthy a then a else b)"

text \<open>\<^verbatim>\<open>d.get(k, default)\<close> and \<^verbatim>\<open>d.get(k)\<close> on a dict read from JSON.\<close>

definition dict_lookup :: "(string \<times> json) list \<Rightarrow> string \<Rightarrow> json option" where
  "dict_lookup d k = map_of (rev d) k"

definition dict_get :: "(string \<times> json) list \<Rightarrow> string \<Rightarrow> json \<Rightarrow> json" where
  "dict_get d k dflt = (case dict_lookup d k of None \<Rightarrow> dflt | Some v \<Rightarrow> v)"

definition dict_get_none :: "(string \<times> json) list \<Rightarrow> string \<Rightarrow> json" where
  "dict_get_none d k = dict_get d k JNull"

section \<open>String operations\<close>

text \<open>\<^verbatim>\<open>s[:n]\<close>, \<^verbatim>\<open>s[a:b]\<close> with \<open>0 \<le> a\<close>, \<^verbatim>\<open>s.find(c)\<close> and \<^verbatim>\<open>s.rfind(c)\<close> for one character.\<close>

definition py_slice :: "'a list \<Rightarrow> int \<Rightarrow> int \<Rightarrow> 'a list" where
  "py_slice s a b = take (nat (b - a)) (drop (nat a) s)"

fun find_from :: "char \<Rightarrow> string \<Rightarrow> int \<Rightarrow> int" where
  "find_from c [] i = - 1"
| "find_from c (x # xs) i = (if x = c then i else find_from c xs (i + 1))"

definition find_char :: "string \<Rightarrow> char \<Rightarrow> int" where
  "find_char s c = find_from c s 0"

fun rfind_from :: "char \<Rightarrow> string \<Rightarrow> int \<Rightarrow> int \<Rightarrow> int" where
  "rfind_from c [] i best = best"
| "rfind_from c (x # xs) i best = rfind_from c xs (i + 1) (if x = c then i else best)"

definition rfind_char :: "string \<Rightarrow> char \<Rightarrow> int" where
  "rfind_char s c = rfind_from c s 0 (- 1)"

section \<open>Data model\<close>

text \<open>
  The scraped page is the dict \<^verbatim>\<open>{"title", "content", "url", "domain"}\<close> that
  \<^verbatim>\<open>scrape\<close> / \<^verbatim>\<open>scrape_url\<close> return. \<^verbatim>\<open>PredictionEvent\<close> is the pydantic model of
  \<^verbatim>\<open>cli.py\<close>; the model of \<^verbatim>\<open>scraper.py\<close> has the further field \<^verbatim>\<open>resolution_date\<close>.
\<close>

record ScrapedPage =
  page_title :: string
  page_content :: string
  page_url :: string
  page_domain :: string

record PredictionEvent =
  title :: string
  description :: string
  category :: string
  options :: "string list"
  confidence :: real
  source_url :: string

record PredictionEvent_scraper = PredictionEvent +
  resolution_date :: string

section \<open>Event synthesis: \<^verbatim>\<open>analyze\<close>\<close>

text \<open>
  The collaborators of \<^verbatim>\<open>analyze\<close> are parameters: \<open>llm\<close> is \<open>None\<close> when
  \<^verbatim>\<open>openai and OPENAI_API_KEY\<close> is false, and otherwise maps the user message to the text
  \<^verbatim>\<open>resp.choices[0].message.content\<close>, or to \<open>None\<close> when the call or that access raises;
  \<open>json_loads\<close> is \<^verbatim>\<open>json.loads\<close> (\<open>None\<close> when it raises); \<open>float_of_str\<close> is
  \<^verbatim>\<open>float\<close> on a string (\<open>None\<close> when it raises \<^verbatim>\<open>ValueError\<close>).
\<close>

record synth_env =
  llm :: "(string \<Rightarrow> string option) option"
  json_loads :: "string \<Rightarrow> json option"
  float_of_str :: "string \<Rightarrow> real option"

definition user_message :: "ScrapedPage \<Rightarrow> string" where
  "user_message scraped =
     ''Title: '' @ page_title scraped @ [CHR 0x0A, CHR 0x0A] @ ''Content: ''
       @ take 2000 (page_content scraped)"

text \<open>
  \<^verbatim>\<open>start = text.find('{'); end = text.rfind('}') + 1\<close>, and the slice
  \<^verbatim>\<open>text[start:end]\<close> when \<^verbatim>\<open>start >= 0 and end > start\<close>.
\<close>

definition json_span :: "string \<Rightarrow> string option" where
  "json_span text =
     (let start = find_char text (CHR ''{'');
          end = rfind_char text (CHR ''}'') + 1
      in if start \<ge> 0 \<and> end > start then Some (py_slice text start end) else None)"

text \<open>
  \<^verbatim>\<open>float(v)\<close>. An integer converts unless it rounds beyond the largest double
  (\<^verbatim>\<open>OverflowError\<close>); \<^verbatim>\<open>None\<close>, lists and dicts are a \<^verbatim>\<open>TypeError\<close>.
\<close>

definition py_float :: "(string \<Rightarrow> real option) \<Rightarrow> json \<Rightarrow> py_error + real" where
  "py_float fos v =
     (case v of
        JFloat r \<Rightarrow> Inr r
      | JInt i \<Rightarrow> (if \<bar>i\<bar> < 2 ^ 1024 - 2 ^ 970 then Inr (of_int i) else Inl OverflowError)
      | JBool b \<Rightarrow> Inr (if b then 1 else 0)
      | JStr s \<Rightarrow> (case fos s of None \<Rightarrow> Inl ValueError | Some r \<Rightarrow> Inr r)
      | _ \<Rightarrow> Inl TypeError)"

text \<open>
  Validation of the pydantic model: a \<^verbatim>\<open>str\<close> field takes a string only, and
  \<^verbatim>\<open>list[str]\<close> a list of strings only; anything else raises \<^verbatim>\<open>ValidationError\<close>.
\<close>

definition validate_str :: "json \<Rightarrow> py_error + string" where
  "validate_str v = (case v of JStr s \<Rightarrow> Inr s | _ \<Rightarrow> Inl ValidationError)"

fun validate_str_items :: "json list \<Rightarrow> py_error + string list" where
  "validate_str_items [] = Inr []"
| "validate_str_items (v # vs) =
     (case validate_str v of
        Inl e \<Rightarrow> Inl e
      | Inr s \<Rightarrow> (case validate_str_items vs of Inl e \<Rightarrow> Inl e | Inr ss \<Rightarrow> Inr (s # ss)))"

definition validate_str_list :: "json \<Rightarrow> py_error + string list" where
  "validate_str_list v = (case v of JArr xs \<Rightarrow> validate_str_items xs | _ \<Rightarrow> Inl ValidationError)"

definition default_title :: "ScrapedPage \<Rightarrow> string" where
  "default_title scraped = ''Prediction: '' @ take 60 (page_title scraped) @ ''?''"

definition default_description :: "ScrapedPage \<Rightarrow> string" where
  "default_description scraped = take 200 (page_content scraped)"

definition default_resolution_date :: string where
  "default_resolution_date = ''2025-12-31T23:59:00-05:00''"

text \<open>
  The constructor call of the LLM path of \<^verbatim>\<open>cli.py\<close>, on the parsed dict \<open>data\<close>:
  \<^verbatim>\<open>float(...)\<close> runs while the arguments are evaluated, the field validation after it.
\<close>

definition event_from_data :: "synth_env \<Rightarrow> ScrapedPage \<Rightarrow> (string \<times> json) list
    \<Rightarrow> py_error + PredictionEvent" where
  "event_from_data env scraped data =
     (case py_float (float_of_str env) (dict_get data ''confidence'' (JFloat 0.7)) of
        Inl e \<Rightarrow> Inl e
      | Inr c \<Rightarrow>
     (case validate_str (dict_get data ''title'' (JStr (default_title scraped))) of
        Inl e \<Rightarrow> Inl e
      | Inr t \<Rightarrow>
     (case validate_str (dict_get data ''description'' (JStr (default_description scraped))) of
        Inl e \<Rightarrow> Inl e
      | Inr d \<Rightarrow>
     (case validate_str (dict_get data ''category'' (JStr ''general'')) of
        Inl e \<Rightarrow> Inl e
      | Inr g \<Rightarrow>
     (case validate_str_list (dict_get data ''options'' (JArr [JStr ''Yes'', JStr ''No''])) of
        Inl e \<Rightarrow> Inl e
      | Inr os \<Rightarrow>
          Inr \<lparr>title = t, description = d, category = g, options = os, confidence = c,
               source_url = page_url scraped\<rparr>)))))"

text \<open>The same call in \<^verbatim>\<open>scraper.py\<close>, with \<^verbatim>\<open>resolution_date\<close>.\<close>

definition event_from_data_scraper :: "synth_env \<Rightarrow> ScrapedPage \<Rightarrow> (string \<times> json) list
    \<Rightarrow> py_error + PredictionEvent_scraper" where
  "event_from_data_scraper env scraped data =
     (case event_from_data env scraped data of
        Inl e \<Rightarrow> Inl e
      | Inr ev \<Rightarrow>
     (case validate_str (dict_get data ''resolution_date'' (JStr default_resolution_date)) of
        Inl e \<Rightarrow> Inl e
      | Inr rd \<Rightarrow>
          Inr \<lparr>title = title ev, description = description ev, category = category ev,
               options = options ev, confidence = confidence ev, source_url = source_url ev,
               resolution_date = rd\<rparr>))"

text \<open>
  What \<^verbatim>\<open>json.loads(text[start:end])\<close> yields on the LLM path, when the path gets that
  far: the dict \<open>data\<close>. Every other outcome (no client, the call raised, no span, a
  parse error, a value that is not a dict and so has no \<^verbatim>\<open>get\<close>) is \<open>None\<close>.
\<close>

definition llm_data :: "synth_env \<Rightarrow> ScrapedPage \<Rightarrow> (string \<times> json) list option" where
  "llm_data env scraped =
     (case llm env of
        None \<Rightarrow> None
      | Some call \<Rightarrow>
     (case call (user_message scraped) of
        None \<Rightarrow> None
      | Some text \<Rightarrow>
     (case json_span text of
        None \<Rightarrow> None
      | Some body \<Rightarrow>
     (case json_loads env body of
        Some (JObj data) \<Rightarrow> Some data
      | _ \<Rightarrow> None))))"

definition fallback_event :: "ScrapedPage \<Rightarrow> PredictionEvent" where
  "fallback_event scraped =
     \<lparr>title = ''Will '' @ [CHR 0x27] @ take 50 (page_title scraped) @ [CHR 0x27]
               @ '' predictions come true?'',
      description = ''Based on: '' @ page_title scraped,
      category = ''general'',
      options = [''Yes'', ''No'', ''Partially''],
      confidence = 0.5,
      source_url = page_url scraped\<rparr>"

definition fallback_event_scraper :: "ScrapedPage \<Rightarrow> PredictionEvent_scraper" where
  "fallback_event_scraper scraped =
     \<lparr>title = ''Will '' @ [CHR 0x27] @ take 50 (page_title scraped) @ [CHR 0x27]
               @ '' predictions come true?'',
      description = ''Based on: '' @ page_title scraped,
      category = ''general'',
      options = [''Yes'', ''No'', ''Partially''],
      confidence = 0.5,
      source_url = page_url scraped,
      resolution_date = default_resolution_date\<rparr>"

text \<open>
  \<^verbatim>\<open>analyze\<close>: the LLM path inside \<^verbatim>\<open>try ... except Exception\<close>, every exception
  falling through to the fallback event.
\<close>

definition analyze :: "synth_env \<Rightarrow> ScrapedPage \<Rightarrow> PredictionEvent" where
  "analyze env scraped =
     (case llm_data env scraped of
        None \<Rightarrow> fallback_event scraped
      | Some data \<Rightarrow>
          (case event_from_data env scraped data of
             Inl e \<Rightarrow> fallback_event scraped
           | Inr ev \<Rightarrow> ev))"

definition analyze_scraper :: "synth_env \<Rightarrow> ScrapedPage \<Rightarrow> PredictionEvent_scraper" where
  "analyze_scraper env scraped =
     (case llm_data env scraped of
        None \<Rightarrow> fallback_event_scraper scraped
      | Some data \<Rightarrow>
          (case event_from_data_scraper env scraped data of
             Inl e \<Rightarrow> fallback_event_scraper scraped
           | Inr ev \<Rightarrow> ev))"

section \<open>Fetching and extraction: \<^verbatim>\<open>scrape\<close> / \<^verbatim>\<open>scrape_url\<close>\<close>

text \<open>
  The document that \<^verbatim>\<open>BeautifulSoup(r.content, "html.parser")\<close> builds is a forest of
  elements and text leaves; the text leaves are the strings that \<^verbatim>\<open>get_text\<close> visits.
\<close>

datatype node = Text string | Tag string "node list"

definition noise_tags :: "string list" where
  "noise_tags = [''script'', ''style'', ''nav'', ''header'', ''footer'', ''aside'']"

fun is_noise :: "node \<Rightarrow> bool" where
  "is_noise (Text s) = False"
| "is_noise (Tag name children) = (name \<in> set noise_tags)"

text \<open>
  \<^verbatim>\<open>for tag in soup([...]): tag.decompose()\<close>: every element with one of the names is
  removed with all that it contains.
\<close>

fun decompose_noise :: "node \<Rightarrow> node"
  and decompose_noise_list :: "node list \<Rightarrow> node list" where
  "decompose_noise (Text s) = Text s"
| "decompose_noise (Tag name children) = Tag name (decompose_noise_list children)"
| "decompose_noise_list [] = []"
| "decompose_noise_list (c # cs) =
     (if is_noise c then decompose_noise_list cs
      else decompose_noise c # decompose_noise_list cs)"

text \<open>\<^verbatim>\<open>soup.find(name)\<close>: the first element of that name in document order.\<close>

fun find_tag :: "string \<Rightarrow> node \<Rightarrow> node option"
  and find_tag_list :: "string \<Rightarrow> node list \<Rightarrow> node option" where
  "find_tag nm (Text s) = None"
| "find_tag nm (Tag name children) =
     (if name = nm then Some (Tag name children) else find_tag_list nm children)"
| "find_tag_list nm [] = None"
| "find_tag_list nm (c # cs) =
     (case find_tag nm c of Some t \<Rightarrow> Some t | None \<Rightarrow> find_tag_list nm cs)"

fun strings_of :: "node \<Rightarrow> string list"
  and strings_of_list :: "node list \<Rightarrow> string list" where
  "strings_of (Text s) = [s]"
| "strings_of (Tag name children) = strings_of_list children"
| "strings_of_list [] = []"
| "strings_of_list (c # cs) = strings_of c @ strings_of_list cs"

text \<open>
  \<^verbatim>\<open>str.strip()\<close> and \<^verbatim>\<open>sep.join(parts)\<close>. White space is what \<^verbatim>\<open>str.isspace\<close> accepts:
  below 256 that is the space, U+0009 to U+000D, U+001C to U+001F, the next-line
  character U+0085 and the no-break space U+00A0.
\<close>

definition is_space :: "char \<Rightarrow> bool" where
  "is_space c = (c \<in> set [CHR 0x20, CHR 0x09, CHR 0x0A, CHR 0x0B, CHR 0x0C, CHR 0x0D,
                           CHR 0x1C, CHR 0x1D, CHR 0x1E, CHR 0x1F, CHR 0x85, CHR 0xA0])"

definition strip :: "string \<Rightarrow> string" where
  "strip s = rev (dropWhile is_space (rev (dropWhile is_space s)))"

fun join :: "string \<Rightarrow> string list \<Rightarrow> string" where
  "join sep [] = []"
| "join sep [x] = x"
| "join sep (x # y # ys) = x @ sep @ join sep (y # ys)"

text \<open>\<^verbatim>\<open>tag.get_text(sep, strip=True)\<close>: the stripped, non-empty strings, joined.\<close>

definition get_text :: "string \<Rightarrow> node \<Rightarrow> string" where
  "get_text sep t = join sep (filter (\<lambda>s. s \<noteq> []) (map strip (strings_of t)))"

text \<open>
  The collaborators of \<^verbatim>\<open>scrape_url\<close>: \<open>http_get url attempt\<close> is the parsed body of the
  response to the request of that attempt, or \<open>None\<close> when the request or
  \<^verbatim>\<open>raise_for_status\<close> raises \<^verbatim>\<open>RequestException\<close>; \<open>netloc\<close> is
  \<^verbatim>\<open>urlparse(url).netloc\<close>.
\<close>

record scrape_env =
  http_get :: "string \<Rightarrow> nat \<Rightarrow> node list option"
  netloc :: "string \<Rightarrow> string"

text \<open>
  \<^verbatim>\<open>for attempt in range(3)\<close>: the first response that does not raise ends the loop,
  and a failure of attempt 2 returns \<^verbatim>\<open>None\<close>.
\<close>

fun fetch_attempts :: "(nat \<Rightarrow> 'a option) \<Rightarrow> nat list \<Rightarrow> 'a option" where
  "fetch_attempts get [] = None"
| "fetch_attempts get (attempt # rest) =
     (case get attempt of
        Some r \<Rightarrow> Some r
      | None \<Rightarrow> (if attempt = 2 then None else fetch_attempts get rest))"

definition fetch :: "scrape_env \<Rightarrow> string \<Rightarrow> node list option" where
  "fetch env url = fetch_attempts (http_get env url) [0, 1, 2]"

definition soup_title :: "node list \<Rightarrow> string" where
  "soup_title soup =
     (case find_tag_list ''title'' soup of Some t \<Rightarrow> get_text [] t | None \<Rightarrow> ''Untitled'')"

text \<open>
  \<^verbatim>\<open>soup.find('article') or soup.find('main') or soup.body\<close>; an element is always
  true, so the first one found is taken.
\<close>

definition main_element :: "node list \<Rightarrow> node option" where
  "main_element soup =
     (case find_tag_list ''article'' soup of
        Some t \<Rightarrow> Some t
      | None \<Rightarrow>
          (case find_tag_list ''main'' soup of
             Some t \<Rightarrow> Some t
           | None \<Rightarrow> find_tag_list ''body'' soup))"

definition main_content :: "node list \<Rightarrow> string" where
  "main_content soup =
     (case main_element soup of Some m \<Rightarrow> take 5000 (get_text [CHR 0x0A] m) | None \<Rightarrow> [])"

definition extract_page :: "scrape_env \<Rightarrow> string \<Rightarrow> node list \<Rightarrow> ScrapedPage option" where
  "extract_page env url doc =
     (let soup = decompose_noise_list doc;
          title = soup_title soup;
          content = main_content soup
      in if length content < 100 then None
         else Some \<lparr>page_title = title, page_content = content, page_url = url,
                    page_domain = netloc env url\<rparr>)"

definition scrape_url :: "scrape_env \<Rightarrow> string \<Rightarrow> ScrapedPage option" where
  "scrape_url env url =
     (case fetch env url of None \<Rightarrow> None | Some doc \<Rightarrow> extract_page env url doc)"

section \<open>Feed reader: \<^verbatim>\<open>parse_rss\<close>\<close>

text \<open>
  What \<^verbatim>\<open>feedparser.parse\<close> returns: the \<^verbatim>\<open>bozo\<close> flag, the feed's own fields and the
  entries, each a dict from field names to strings.
\<close>

record parsed_feed =
  bozo :: bool
  feed_meta :: "string \<rightharpoonup> string"
  entries :: "(string \<rightharpoonup> string) list"

record FeedItem =
  item_title :: string
  item_link :: string
  item_summary :: string
  item_published :: string

record Feed =
  feed_title :: string
  feed_link :: string
  feed_items :: "FeedItem list"

definition str_get :: "(string \<rightharpoonup> string) \<Rightarrow> string \<Rightarrow> string \<Rightarrow> string" where
  "str_get m k dflt = (case m k of None \<Rightarrow> dflt | Some v \<Rightarrow> v)"

definition feed_item :: "(string \<rightharpoonup> string) \<Rightarrow> FeedItem" where
  "feed_item entry =
     \<lparr>item_title = str_get entry ''title'' ''Untitled'',
      item_link = str_get entry ''link'' [],
      item_summary = take 200 (str_get entry ''summary'' (str_get entry ''description'' [])),
      item_published = str_get entry ''published'' []\<rparr>"

text \<open>
  \<open>feedparser_parse\<close> is \<^verbatim>\<open>feedparser.parse\<close>, \<open>None\<close> when it raises; the
  \<^verbatim>\<open>except Exception\<close> clause turns that into \<^verbatim>\<open>None\<close>.
\<close>

definition parse_rss :: "(string \<Rightarrow> parsed_feed option) \<Rightarrow> string \<Rightarrow> Feed option" where
  "parse_rss feedparser_parse url =
     (case feedparser_parse url of
        None \<Rightarrow> None
      | Some feed \<Rightarrow>
          (if bozo feed \<and> entries feed = [] then None
           else Some \<lparr>feed_title = str_get (feed_meta feed) ''title'' ''Unknown Feed'',
                      feed_link = str_get (feed_meta feed) ''link'' url,
                      feed_items = map feed_item (entries feed)\<rparr>))"

section \<open>Publisher: \<^verbatim>\<open>post_to_blockchain\<close>\<close>

text \<open>
  \<^verbatim>\<open>data.get('id') or data.get('market_id') or data.get('event_id')\<close>.
\<close>

definition extract_id :: "(string \<times> json) list \<Rightarrow> json" where
  "extract_id data =
     py_or (py_or (dict_get_none data ''id'') (dict_get_none data ''market_id''))
           (dict_get_none data ''event_id'')"

text \<open>
  The collaborators of the publisher: \<open>health_status\<close> is the status code of
  \<^verbatim>\<open>GET /health\<close> and \<open>http_post\<close> the decoded body of the response to
  \<^verbatim>\<open>POST /ai/events\<close> with that JSON payload; each is \<open>None\<close> when the request
  raises \<^verbatim>\<open>RequestException\<close> (for the post: also on a status that
  \<^verbatim>\<open>raise_for_status\<close> rejects).
\<close>

record publish_env =
  health_status :: "nat option"
  http_post :: "json \<Rightarrow> json option"
  source_netloc :: "string \<Rightarrow> string"

definition event_fields :: "'a PredictionEvent_scheme \<Rightarrow> (string \<times> json) list" where
  "event_fields ev =
     [(''title'', JStr (title ev)), (''description'', JStr (description ev)),
      (''category'', JStr (category ev)), (''options'', JArr (map JStr (options ev))),
      (''confidence'', JFloat (confidence ev)), (''source_url'', JStr (source_url ev))]"

text \<open>The payload of \<^verbatim>\<open>scraper.py\<close>: the page's domain, and \<^verbatim>\<open>event.model_dump()\<close>.\<close>

definition payload_scraper :: "publish_env \<Rightarrow> PredictionEvent_scraper \<Rightarrow> json" where
  "payload_scraper env ev =
     JObj [(''source'', JObj [(''domain'', JStr (source_netloc env (source_url ev))),
                              (''url'', JStr (source_url ev))]),
           (''event'', JObj (event_fields ev @ [(''resolution_date'', JStr (resolution_date ev))]))]"

text \<open>
  \<^verbatim>\<open>post_to_blockchain\<close> of \<^verbatim>\<open>scraper.py\<close>: health check, post, identifier. A body that
  is not a dict has no \<^verbatim>\<open>get\<close>, which no clause catches.
\<close>

definition post_to_blockchain_scraper :: "publish_env \<Rightarrow> PredictionEvent_scraper
    \<Rightarrow> py_error + json" where
  "post_to_blockchain_scraper env ev =
     (case health_status env of
        None \<Rightarrow> Inr JNull
      | Some status \<Rightarrow>
          (if status \<noteq> 200 then Inr JNull
           else (case http_post env (payload_scraper env ev) of
                   None \<Rightarrow> Inr JNull
                 | Some (JObj data) \<Rightarrow> Inr (extract_id data)
                 | Some other \<Rightarrow> Inl AttributeError)))"

text \<open>The payload of \<^verbatim>\<open>cli.py\<close>: a fixed agent name, and the six fields.\<close>

definition payload :: "PredictionEvent \<Rightarrow> json" where
  "payload ev =
     JObj [(''source'', JObj [(''domain'', JStr ''objectwire-agent''),
                              (''url'', JStr (source_url ev))]),
           (''event'', JObj (event_fields ev))]"

text \<open>
  \<^verbatim>\<open>post_to_blockchain\<close> of \<^verbatim>\<open>cli.py\<close> returns the decoded body, or \<^verbatim>\<open>None\<close>; its
  callers compute
  \<^verbatim>\<open>result.get('id') or ... if isinstance(result, dict) else result\<close>.
\<close>

definition post_to_blockchain :: "publish_env \<Rightarrow> PredictionEvent \<Rightarrow> json" where
  "post_to_blockchain env ev =
     (case http_post env (payload ev) of None \<Rightarrow> JNull | Some body \<Rightarrow> body)"

definition event_id_of :: "json \<Rightarrow> json" where
  "event_id_of result = (case result of JObj data \<Rightarrow> extract_id data | _ \<Rightarrow> result)"

section \<open>Interactive session: \<^verbatim>\<open>interactive_mode\<close>\<close>

text \<open>
  More string operations of the command loop: \<^verbatim>\<open>str.split()\<close>, \<^verbatim>\<open>str.lower()\<close>,
  \<^verbatim>\<open>str.isdigit()\<close>, \<^verbatim>\<open>int(s)\<close>, \<^verbatim>\<open>str.startswith\<close> and the substring test
  \<^verbatim>\<open>sub in s\<close>. Below 256 the upper-case letters are A to Z, U+00C0 to U+00D6 and
  U+00D8 to U+00DE, each 32 below its lower-case letter. \<^verbatim>\<open>isdigit\<close> accepts the
  decimal digits and the superscripts U+00B2, U+00B3 and U+00B9; \<^verbatim>\<open>int\<close> accepts, of
  these, the decimal digits only and raises \<^verbatim>\<open>ValueError\<close> on a superscript.
\<close>

fun split_acc :: "string \<Rightarrow> string \<Rightarrow> string list" where
  "split_acc cur [] = (if cur = [] then [] else [cur])"
| "split_acc cur (c # cs) =
     (if is_space c then (if cur = [] then split_acc [] cs else cur # split_acc [] cs)
      else split_acc (cur @ [c]) cs)"

definition split :: "string \<Rightarrow> string list" where
  "split s = split_acc [] s"

definition upper_letters :: string where
  "upper_letters =
     ''ABCDEFGHIJKLMNOPQRSTUVWXYZ''
       @ [CHR 0xC0, CHR 0xC1, CHR 0xC2, CHR 0xC3, CHR 0xC4, CHR 0xC5, CHR 0xC6, CHR 0xC7,
          CHR 0xC8, CHR 0xC9, CHR 0xCA, CHR 0xCB, CHR 0xCC, CHR 0xCD, CHR 0xCE, CHR 0xCF,
          CHR 0xD0, CHR 0xD1, CHR 0xD2, CHR 0xD3, CHR 0xD4, CHR 0xD5, CHR 0xD6,
          CHR 0xD8, CHR 0xD9, CHR 0xDA, CHR 0xDB, CHR 0xDC, CHR 0xDD, CHR 0xDE]"

definition lower_letters :: string where
  "lower_letters =
     ''abcdefghijklmnopqrstuvwxyz''
       @ [CHR 0xE0, CHR 0xE1, CHR 0xE2, CHR 0xE3, CHR 0xE4, CHR 0xE5, CHR 0xE6, CHR 0xE7,
          CHR 0xE8, CHR 0xE9, CHR 0xEA, CHR 0xEB, CHR 0xEC, CHR 0xED, CHR 0xEE, CHR 0xEF,
          CHR 0xF0, CHR 0xF1, CHR 0xF2, CHR 0xF3, CHR 0xF4, CHR 0xF5, CHR 0xF6,
          CHR 0xF8, CHR 0xF9, CHR 0xFA, CHR 0xFB, CHR 0xFC, CHR 0xFD, CHR 0xFE]"

definition lower_char :: "char \<Rightarrow> char" where
  "lower_char c =
     (case map_of (zip upper_letters lower_letters) c of
        Some l \<Rightarrow> l
      | None \<Rightarrow> c)"

definition lower :: "string \<Rightarrow> string" where
  "lower s = map lower_char s"

definition decimal_digits :: string where
  "decimal_digits = ''0123456789''"

definition superscript_digits :: string where
  "superscript_digits = [CHR 0xB2, CHR 0xB3, CHR 0xB9]"

definition isdigit :: "string \<Rightarrow> bool" where
  "isdigit s =
     (s \<noteq> [] \<and> list_all (\<lambda>c. c \<in> set decimal_digits \<or> c \<in> set superscript_digits) s)"

definition isdecimal :: "string \<Rightarrow> bool" where
  "isdecimal s = (s \<noteq> [] \<and> list_all (\<lambda>c. c \<in> set decimal_digits) s)"

definition digit_val :: "char \<Rightarrow> nat" where
  "digit_val c =
     (case map_of (zip ''0123456789'' [0, 1, 2, 3, 4, 5, 6, 7, 8, 9]) c of
        Some v \<Rightarrow> v
      | None \<Rightarrow> 0)"

definition int_of_digits :: "string \<Rightarrow> nat" where
  "int_of_digits s = foldl (\<lambda>acc c. 10 * acc + digit_val c) 0 s"

text \<open>\<^verbatim>\<open>int(s)\<close> on a string that \<^verbatim>\<open>isdigit\<close> accepts.\<close>

definition py_int :: "string \<Rightarrow> py_error + nat" where
  "py_int s = (if isdecimal s then Inr (int_of_digits s) else Inl ValueError)"

definition startswith :: "string \<Rightarrow> string \<Rightarrow> bool" where
  "startswith s p = (take (length p) s = p)"

fun contains :: "string \<Rightarrow> string \<Rightarrow> bool" where
  "contains sub [] = (sub = [])"
| "contains sub (c # cs) = (startswith (c # cs) sub \<or> contains sub cs)"

definition is_url :: "string \<Rightarrow> bool" where
  "is_url s = (startswith s ''http://'' \<or> startswith s ''https://'')"

text \<open>
  The session state is the pair of local variables \<^verbatim>\<open>last_event\<close> and
  \<^verbatim>\<open>last_rss_items\<close> of \<^verbatim>\<open>interactive_mode\<close>. One pass of the loop reads a line at the
  prompt; \<^verbatim>\<open>session.prompt\<close> returns it, or raises \<^verbatim>\<open>KeyboardInterrupt\<close> or
  \<^verbatim>\<open>EOFError\<close>.
\<close>

record session =
  last_event :: "PredictionEvent option"
  last_rss_items :: "FeedItem list"

datatype prompt_result = Line string | Interrupt | EOF

text \<open>
  The collaborators of one pass: the environments of the pipeline, the text that
  \<^verbatim>\<open>paste_from_clipboard\<close> returns, the reply at the confirmation prompt of \<^verbatim>\<open>post\<close>, and
  whether \<^verbatim>\<open>copy_to_clipboard\<close> succeeds.
\<close>

record world =
  w_synth :: synth_env
  w_scrape :: scrape_env
  w_feedparser :: "string \<Rightarrow> parsed_feed option"
  w_publish :: publish_env
  w_clipboard :: "string option"
  w_confirm :: prompt_result
  w_clip_write :: bool

text \<open>
  What a pass does to the outside: the calls of the collaborators, in order, and what it
  prints (one constructor for each \<^verbatim>\<open>console.print\<close> of the loop; the layout is not
  modelled).
\<close>

datatype message =
    Goodbye
  | Help
  | Status
  | UsageScrape
  | ScrapeFailed
  | ScrapingArticle nat string
  | ArticleFailed
  | JsonOut PredictionEvent
  | XmlOut PredictionEvent
  | SelectionTip nat
  | InvalidArticle nat
  | EventPanel PredictionEvent
  | PostedToBlockchain
  | EventId json
  | PostOffline
  | PostRequestError
  | UsageRss
  | RssFailed
  | FeedTable string "FeedItem list"
  | RssTip nat
  | NoEventToPost
  | Preview json
  | Cancelled
  | PostedId json
  | PostFailed
  | NoEventToCopy
  | Copied string
  | CopyFailed
  | ClipboardEmpty
  | Pasted string
  | FeedDetected string "FeedItem list"
  | AutoTip
  | PasteParseFailed
  | NotAUrl string
  | ParseUrlFailed
  | UnknownCommand string

datatype effect =
    Say message
  | CallScrape string
  | CallParseRss string
  | CallPost json
  | CallClipboardRead
  | CallClipboardWrite bool PredictionEvent
  | CallConfirmPrompt

datatype outcome = Continue session | Break | Raised py_error

text \<open>
  \<^verbatim>\<open>post_to_blockchain\<close> of \<^verbatim>\<open>cli.py\<close> as the loop sees it: the request, and the message
  that its \<^verbatim>\<open>except\<close> clause prints.
\<close>

definition post_effects :: "world \<Rightarrow> PredictionEvent \<Rightarrow> effect list" where
  "post_effects w ev =
     CallPost (payload ev)
       # (case http_post (w_publish w) (payload ev) of
            None \<Rightarrow> [Say PostRequestError]
          | Some body \<Rightarrow> [])"

text \<open>
  The report after an automatic post (\<^verbatim>\<open>scrape\<close>, paste and bare URL):
  \<^verbatim>\<open>if result: ... if isinstance(result, dict): ... if event_id: ...\<close>.
\<close>

definition auto_post_report :: "json \<Rightarrow> effect list" where
  "auto_post_report result =
     (if truthy result then
        Say PostedToBlockchain
          # (case result of
               JObj data \<Rightarrow> (if truthy (extract_id data) then [Say (EventId (extract_id data))] else [])
             | _ \<Rightarrow> [])
      else [Say PostOffline])"

text \<open>Scrape, analyze, show the event and post it: the tail that three branches share.\<close>

definition scrape_and_post :: "world \<Rightarrow> session \<Rightarrow> string \<Rightarrow> message
    \<Rightarrow> effect list \<times> outcome" where
  "scrape_and_post w st url failure =
     (case scrape_url (w_scrape w) url of
        None \<Rightarrow> ([CallScrape url, Say failure], Continue st)
      | Some data \<Rightarrow>
          (let ev = analyze (w_synth w) data
           in ([CallScrape url, Say (EventPanel ev)] @ post_effects w ev
                 @ auto_post_report (post_to_blockchain (w_publish w) ev),
               Continue (st\<lparr>last_event := Some ev\<rparr>))))"

text \<open>
  Article selection (\<^verbatim>\<open>cli.py\<close> lines 530 to 581). The panel of the branch without
  \<^verbatim>\<open>json\<close> or \<^verbatim>\<open>xml\<close> reads \<^verbatim>\<open>last_event.resolution_date\<close>, which the model of
  \<^verbatim>\<open>cli.py\<close> does not have: \<^verbatim>\<open>AttributeError\<close>, which the loop does not catch.
\<close>

definition select_flow :: "world \<Rightarrow> session \<Rightarrow> nat \<Rightarrow> string \<Rightarrow> effect list \<times> outcome" where
  "select_flow w st article_num args =
     (if 1 \<le> article_num \<and> article_num \<le> length (last_rss_items st) then
        (let item = last_rss_items st ! (article_num - 1);
             article_url = item_link item;
             show_json = contains ''json'' (lower args);
             show_xml = contains ''xml'' (lower args);
             announce = [Say (ScrapingArticle article_num (take 50 (item_title item))),
                         CallScrape article_url]
         in case scrape_url (w_scrape w) article_url of
              None \<Rightarrow> (announce @ [Say ArticleFailed], Continue st)
            | Some data \<Rightarrow>
                (let ev = analyze (w_synth w) data
                 in if show_json \<or> show_xml then
                      (announce @ (if show_json then [Say (JsonOut ev)] else [])
                         @ (if show_xml then [Say (XmlOut ev)] else [])
                         @ [Say (SelectionTip article_num)],
                       Continue (st\<lparr>last_event := Some ev\<rparr>))
                    else (announce, Raised AttributeError)))
      else ([Say (InvalidArticle (length (last_rss_items st)))], Continue st))"

definition scrape_flow :: "world \<Rightarrow> session \<Rightarrow> string \<Rightarrow> effect list \<times> outcome" where
  "scrape_flow w st args =
     (if args = [] then ([Say UsageScrape], Continue st)
      else scrape_and_post w st args ScrapeFailed)"

definition rss_flow :: "world \<Rightarrow> session \<Rightarrow> string \<Rightarrow> effect list \<times> outcome" where
  "rss_flow w st args =
     (if args = [] then ([Say UsageRss], Continue st)
      else (case parse_rss (w_feedparser w) args of
              None \<Rightarrow> ([CallParseRss args, Say RssFailed], Continue st)
            | Some feed \<Rightarrow>
                ([CallParseRss args, Say (FeedTable (feed_title feed) (take 15 (feed_items feed))),
                  Say (RssTip (length (take 15 (feed_items feed))))],
                 Continue (st\<lparr>last_rss_items := take 15 (feed_items feed)\<rparr>))))"

text \<open>
  \<^verbatim>\<open>post\<close> (lines 661 to 701): the preview, the confirmation prompt, whose reply is
  stripped and lower-cased, and the post.
\<close>

definition post_flow :: "world \<Rightarrow> session \<Rightarrow> effect list \<times> outcome" where
  "post_flow w st =
     (case last_event st of
        None \<Rightarrow> ([Say NoEventToPost], Continue st)
      | Some ev \<Rightarrow>
          (case w_confirm w of
             Interrupt \<Rightarrow> ([Say (Preview (payload ev)), CallConfirmPrompt], Continue st)
           | EOF \<Rightarrow> ([Say (Preview (payload ev)), CallConfirmPrompt, Say Goodbye], Break)
           | Line reply \<Rightarrow>
               (if lower (strip reply) \<notin> {''y'', ''yes''} then
                  ([Say (Preview (payload ev)), CallConfirmPrompt, Say Cancelled], Continue st)
                else
                  ([Say (Preview (payload ev)), CallConfirmPrompt] @ post_effects w ev
                     @ (if truthy (post_to_blockchain (w_publish w) ev)
                        then [Say (PostedId (event_id_of (post_to_blockchain (w_publish w) ev)))]
                        else [Say PostFailed]),
                   Continue st))))"

definition copy_flow :: "world \<Rightarrow> session \<Rightarrow> string \<Rightarrow> effect list \<times> outcome" where
  "copy_flow w st args =
     (case last_event st of
        None \<Rightarrow> ([Say NoEventToCopy], Continue st)
      | Some ev \<Rightarrow>
          (let fmt = (if args \<noteq> [] then lower args else ''json'')
           in ([CallClipboardWrite (fmt = ''xml'') ev,
                Say (if w_clip_write w then Copied fmt else CopyFailed)],
               Continue st)))"

text \<open>
  \<^verbatim>\<open>paste\<close> / \<^verbatim>\<open>v\<close> / \<^verbatim>\<open>pv\<close> (lines 724 to 784): a feed is listed, and nothing is
  assigned to \<^verbatim>\<open>last_rss_items\<close>.
\<close>

definition paste_flow :: "world \<Rightarrow> session \<Rightarrow> effect list \<times> outcome" where
  "paste_flow w st =
     (case w_clipboard w of
        None \<Rightarrow> ([CallClipboardRead, Say ClipboardEmpty], Continue st)
      | Some clipboard_text \<Rightarrow>
          (if clipboard_text = [] then ([CallClipboardRead, Say ClipboardEmpty], Continue st)
           else if is_url clipboard_text then
             (case parse_rss (w_feedparser w) clipboard_text of
                Some feed \<Rightarrow>
                  (if feed_items feed \<noteq> [] then
                     ([CallClipboardRead, Say (Pasted clipboard_text), CallParseRss clipboard_text,
                       Say (FeedDetected (feed_title feed) (take 3 (feed_items feed)))],
                      Continue st)
                   else
                     (let (effects, result) = scrape_and_post w st clipboard_text PasteParseFailed
                      in ([CallClipboardRead, Say (Pasted clipboard_text),
                           CallParseRss clipboard_text] @ effects, result)))
              | None \<Rightarrow>
                  (let (effects, result) = scrape_and_post w st clipboard_text PasteParseFailed
                   in ([CallClipboardRead, Say (Pasted clipboard_text),
                        CallParseRss clipboard_text] @ effects, result)))
           else ([CallClipboardRead, Say (NotAUrl (take 50 clipboard_text))], Continue st)))"

text \<open>
  The last branch (lines 787 to 847): a line that starts with \<^verbatim>\<open>http://\<close> or
  \<^verbatim>\<open>https://\<close> is tried as a feed, whose first three items are stored, and then as a
  page; any other line is an unknown command.
\<close>

definition autodetect_flow :: "world \<Rightarrow> session \<Rightarrow> string \<Rightarrow> string
    \<Rightarrow> effect list \<times> outcome" where
  "autodetect_flow w st cmd action =
     (if is_url cmd then
        (case parse_rss (w_feedparser w) cmd of
           Some feed \<Rightarrow>
             (if feed_items feed \<noteq> [] then
                ([CallParseRss cmd, Say (FeedDetected (feed_title feed) (take 3 (feed_items feed))),
                  Say AutoTip],
                 Continue (st\<lparr>last_rss_items := take 3 (feed_items feed)\<rparr>))
              else
                (let (effects, result) = scrape_and_post w st cmd ParseUrlFailed
                 in (CallParseRss cmd # effects, result)))
         | None \<Rightarrow>
             (let (effects, result) = scrape_and_post w st cmd ParseUrlFailed
              in (CallParseRss cmd # effects, result)))
      else ([Say (UnknownCommand action)], Continue st))"

text \<open>
  The dispatch on one command line: \<^verbatim>\<open>parts = cmd.split()\<close>,
  \<^verbatim>\<open>action = parts[0].lower()\<close>, \<^verbatim>\<open>args = " ".join(parts[1:])\<close>, the article selection
  first (an exception of \<^verbatim>\<open>int(action)\<close> leaves the loop), then the keywords.
\<close>

definition dispatch :: "world \<Rightarrow> session \<Rightarrow> string \<Rightarrow> effect list \<times> outcome" where
  "dispatch w st cmd =
     (case split cmd of
        [] \<Rightarrow> ([], Raised IndexError)
      | first # rest \<Rightarrow>
          (let action = lower first; args = join '' '' rest
           in if isdigit action \<and> last_rss_items st \<noteq> [] then
                (case py_int action of
                   Inl e \<Rightarrow> ([], Raised e)
                 | Inr article_num \<Rightarrow> select_flow w st article_num args)
              else if action \<in> {''exit'', ''quit'', ''q''} then ([Say Goodbye], Break)
              else if action = ''help'' then ([Say Help], Continue st)
              else if action = ''status'' then ([Say Status], Continue st)
              else if action = ''scrape'' then scrape_flow w st args
              else if action = ''rss'' then rss_flow w st args
              else if action = ''post'' then post_flow w st
              else if action \<in> {''copy'', ''c''} then copy_flow w st args
              else if action \<in> {''paste'', ''v'', ''pv''} then
                paste_flow w st
              else autodetect_flow w st cmd action))"

text \<open>
  One pass of \<^verbatim>\<open>while True\<close>: the prompt, \<^verbatim>\<open>strip()\<close>, the empty line, and the two
  exceptions that the loop catches.
\<close>

definition interactive_step :: "world \<Rightarrow> session \<Rightarrow> prompt_result \<Rightarrow> effect list \<times> outcome" where
  "interactive_step w st input =
     (case input of
        Interrupt \<Rightarrow> ([], Continue st)
      | EOF \<Rightarrow> ([Say Goodbye], Break)
      | Line raw \<Rightarrow> (if strip raw = [] then ([], Continue st) else dispatch w st (strip raw)))"


text \<open>
  The span that the specification describes, for comparison with \<open>json_span\<close>: from
  the first \<^verbatim>\<open>{\<close> to the \<^verbatim>\<open>}\<close> that closes it, counting nested braces.
\<close>

fun close_brace :: "string \<Rightarrow> nat \<Rightarrow> string option" where
  "close_brace [] depth = None"
| "close_brace (c # cs) depth =
     (if c = CHR ''{'' then map_option ((#) c) (close_brace cs (Suc depth))
      else if c = CHR ''}'' then
        (if depth \<le> 1 then Some [c] else map_option ((#) c) (close_brace cs (depth - 1)))
      else map_option ((#) c) (close_brace cs depth))"

definition first_balanced_span :: "string \<Rightarrow> string option" where
  "first_balanced_span text = close_brace (dropWhile (\<lambda>c. c \<noteq> CHR ''{'') text) 0"


text \<open>
  When the constructor call of the LLM path validates: every field that the parsed dict
  holds has a value of the field's type.
\<close>

definition is_str :: "json \<Rightarrow> bool" where
  "is_str v = (case v of JStr s \<Rightarrow> True | _ \<Rightarrow> False)"

definition is_str_list :: "json \<Rightarrow> bool" where
  "is_str_list v = (case v of JArr xs \<Rightarrow> list_all is_str xs | _ \<Rightarrow> False)"

definition is_floatable :: "synth_env \<Rightarrow> json \<Rightarrow> bool" where
  "is_floatable env v = (case py_float (float_of_str env) v of Inr r \<Rightarrow> True | Inl e \<Rightarrow> False)"

definition field_ok :: "(json \<Rightarrow> bool) \<Rightarrow> (string \<times> json) list \<Rightarrow> string \<Rightarrow> bool" where
  "field_ok ok data k = (case dict_lookup data k of None \<Rightarrow> True | Some v \<Rightarrow> ok v)"

definition present_fields_valid :: "synth_env \<Rightarrow> (string \<times> json) list \<Rightarrow> bool" where
  "present_fields_valid env data =
     (field_ok is_str data ''title'' \<and> field_ok is_str data ''description''
      \<and> field_ok is_str data ''category'' \<and> field_ok is_str_list data ''options''
      \<and> field_ok (is_floatable env) data ''confidence'')"

definition present_fields_valid_scraper :: "synth_env \<Rightarrow> (string \<times> json) list \<Rightarrow> bool" where
  "present_fields_valid_scraper env data =
     (present_fields_valid env data \<and> field_ok is_str data ''resolution_date'')"

section \<open>Sample inputs\<close>

text \<open>
  A page as \<^verbatim>\<open>scrape\<close> returns it, an environment without LLM client, and an
  environment whose LLM answers \<open>text\<close> and whose \<^verbatim>\<open>json.loads\<close> reads \<open>text\<close> as \<open>v\<close>.
\<close>

definition example_page :: ScrapedPage where
  "example_page =
     \<lparr>page_title = ''Example Domain'', page_content = replicate 850 (CHR ''a''),
      page_url = ''https://example.com/'', page_domain = ''example.com''\<rparr>"

definition reply_env :: "string \<Rightarrow> json \<Rightarrow> synth_env" where
  "reply_env text v =
     \<lparr>llm = Some (\<lambda>msg. Some text),
      json_loads = (\<lambda>s. if s = text then Some v else None),
      float_of_str = (\<lambda>s. None)\<rparr>"

definition no_llm_env :: synth_env where
  "no_llm_env = \<lparr>llm = None, json_loads = (\<lambda>s. None), float_of_str = (\<lambda>s. None)\<rparr>"


definition sample_doc :: "node list" where
  "sample_doc =
     [Tag ''html''
        [Tag ''head'' [Tag ''title'' [Text '' Example Domain '']],
         Tag ''body''
           [Tag ''nav'' [Text ''Home''],
            Tag ''p'' [Text (replicate 60 (CHR ''a''))],
            Tag ''script'' [Text ''var x = 1;''],
            Tag ''p'' [Text (replicate 60 (CHR ''b''))]]]]"

definition sample_scrape_env :: scrape_env where
  "sample_scrape_env =
     \<lparr>http_get = (\<lambda>url attempt. if attempt = 1 then Some sample_doc else None),
      netloc = (\<lambda>url. ''example.com'')\<rparr>"

definition sample_response :: "(string \<times> json) list" where
  "sample_response = [(''id'', JInt 0), (''market_id'', JStr ''m-1''), (''event_id'', JStr ''e-1'')]"

definition sample_feed :: parsed_feed where
  "sample_feed =
     \<lparr>bozo = False, feed_meta = [''title'' \<mapsto> ''News''],
      entries = [[''description'' \<mapsto> ''Rain tomorrow'', ''link'' \<mapsto> ''https://example.com/a'']]\<rparr>"

definition sample_item :: FeedItem where
  "sample_item =
     \<lparr>item_title = ''Untitled'', item_link = ''https://example.com/a'',
      item_summary = ''Rain tomorrow'', item_published = []\<rparr>"

definition sample_world :: world where
  "sample_world =
     \<lparr>w_synth = no_llm_env,
      w_scrape = sample_scrape_env,
      w_feedparser = (\<lambda>url. if url = ''https://example.com/rss'' then Some sample_feed else None),
      w_publish = \<lparr>health_status = Some 200,
                   http_post = (\<lambda>p. Some (JObj sample_response)),
                   source_netloc = (\<lambda>url. ''example.com'')\<rparr>,
      w_clipboard = Some ''https://example.com/rss'',
      w_confirm = Line ''YES'',
      w_clip_write = True\<rparr>"

definition empty_session :: session where
  "empty_session = \<lparr>last_event = None, last_rss_items = []\<rparr>"

definition listed_session :: session where
  "listed_session = \<lparr>last_event = None, last_rss_items = [sample_item]\<rparr>"

definition sample_page :: "string \<Rightarrow> ScrapedPage" where
  "sample_page url =
     \<lparr>page_title = ''Example Domain'',
      page_content = replicate 60 (CHR ''a'') @ [CHR 0x0A] @ replicate 60 (CHR ''b''),
      page_url = url, page_domain = ''example.com''\<rparr>"

section \<open>Properties of the string operations\<close>

lemma find_from_absent: "c \<notin> set s \<Longrightarrow> find_from c s i = - 1"
  by (induction s arbitrary: i) auto

lemma find_from_first: "c \<notin> set pre \<Longrightarrow> find_from c (pre @ c # rest) i = i + int (length pre)"
  by (induction pre arbitrary: i) auto

lemma find_from_range: "find_from c s i = - 1 \<or> (i \<le> find_from c s i \<and> find_from c s i < i + int (length s))"
  by (induction s arbitrary: i) (auto, force+)

lemma rfind_from_absent: "c \<notin> set s \<Longrightarrow> rfind_from c s i best = best"
  by (induction s arbitrary: i best) auto

lemma rfind_from_last:
  "c \<notin> set suf \<Longrightarrow> rfind_from c (xs @ c # suf) i best = i + int (length xs)"
  by (induction xs arbitrary: i best) (auto simp: rfind_from_absent)

lemma find_char_split:
  "c \<in> set s \<Longrightarrow> \<exists>pre rest. s = pre @ c # rest \<and> c \<notin> set pre"
  by (meson split_list_first)

lemma rfind_char_split:
  "c \<in> set s \<Longrightarrow> \<exists>xs suf. s = xs @ c # suf \<and> c \<notin> set suf"
  by (meson split_list_last)

lemma json_span_decomp:
  assumes "CHR ''{'' \<notin> set pre" and "CHR ''}'' \<notin> set suf"
  shows "json_span (pre @ CHR ''{'' # mid @ CHR ''}'' # suf) = Some (CHR ''{'' # mid @ [CHR ''}''])"
proof -
  let ?t = "pre @ CHR ''{'' # mid @ CHR ''}'' # suf"
  have s: "find_char ?t (CHR ''{'') = int (length pre)"
    using find_from_first [OF assms(1), of "mid @ CHR ''}'' # suf" 0] by (simp add: find_char_def)
  have "?t = (pre @ CHR ''{'' # mid) @ CHR ''}'' # suf" by simp
  then have e: "rfind_char ?t (CHR ''}'') = int (length pre) + 1 + int (length mid)"
    using rfind_from_last [OF assms(2), of "pre @ CHR ''{'' # mid" 0 "- 1"] by (simp add: rfind_char_def)
  show ?thesis
    unfolding json_span_def s e by (simp add: py_slice_def Let_def nat_add_distrib)
qed

lemma json_span_Some_decomp:
  assumes "json_span text = Some s"
  shows "\<exists>pre mid suf. text = pre @ CHR ''{'' # mid @ CHR ''}'' # suf \<and> CHR ''{'' \<notin> set pre
            \<and> CHR ''}'' \<notin> set suf \<and> s = CHR ''{'' # mid @ [CHR ''}'']"
proof -
  have obr: "CHR ''{'' \<in> set text"
    using find_from_absent [of \<open>CHR ''{''\<close> "text" 0] assms
    by (auto simp: json_span_def find_char_def Let_def split: if_splits)
  then obtain pre rest where t: "text = pre @ CHR ''{'' # rest" and p: "CHR ''{'' \<notin> set pre"
    using find_char_split by metis
  have st: "find_char text (CHR ''{'') = int (length pre)"
    using find_from_first [OF p, of rest 0] t by (simp add: find_char_def)
  have c: "CHR ''}'' \<in> set text"
    using assms rfind_from_absent [of \<open>CHR ''}''\<close> "text" 0 "- 1"] find_from_range [of \<open>CHR ''{''\<close> "text" 0]
    by (auto simp: json_span_def find_char_def rfind_char_def Let_def split: if_splits)
  then obtain xs suf where t2: "text = xs @ CHR ''}'' # suf" and q: "CHR ''}'' \<notin> set suf"
    using rfind_char_split by metis
  have en: "rfind_char text (CHR ''}'') = int (length xs)"
    using rfind_from_last [OF q, of xs 0 "- 1"] t2 by (simp add: rfind_char_def)
  have lt: "length pre < length xs"
  proof -
    have "int (length pre) < int (length xs) + 1"
      using assms st en by (auto simp: json_span_def Let_def split: if_splits)
    moreover have "length pre \<noteq> length xs"
    proof
      assume "length pre = length xs"
      then have "text ! length pre = CHR ''{''" "text ! length pre = CHR ''}''"
        using t t2 by (metis nth_append_length)+
      then show False by simp
    qed
    ultimately show ?thesis by linarith
  qed
  have "take (length xs) text = xs" using t2 by simp
  then have "xs = take (length xs) (pre @ CHR ''{'' # rest)" using t by simp
  then have "xs = pre @ CHR ''{'' # take (length xs - length pre - 1) rest"
    using lt by (simp add: take_Cons' )
  then obtain mid where m: "xs = pre @ CHR ''{'' # mid" by blast
  then have t3: "text = pre @ CHR ''{'' # mid @ CHR ''}'' # suf" using t2 by simp
  then have "s = CHR ''{'' # mid @ [CHR ''}'']"
    using json_span_decomp [OF p q, of mid] assms by simp
  then show ?thesis using t3 p q by blast
qed

section \<open>Properties of \<^verbatim>\<open>analyze\<close>\<close>





lemma event_from_data_Inr:
  assumes "event_from_data env scraped data = Inr ev"
  shows "validate_str (dict_get data ''title'' (JStr (default_title scraped))) = Inr (title ev)"
    and "validate_str (dict_get data ''description'' (JStr (default_description scraped))) = Inr (description ev)"
    and "validate_str (dict_get data ''category'' (JStr ''general'')) = Inr (category ev)"
    and "validate_str_list (dict_get data ''options'' (JArr [JStr ''Yes'', JStr ''No''])) = Inr (options ev)"
    and "py_float (float_of_str env) (dict_get data ''confidence'' (JFloat 0.7)) = Inr (confidence ev)"
    and "source_url ev = page_url scraped"
  using assms by (auto simp: event_from_data_def split: sum.splits)










text \<open>
  Claim C3. The claim: the JSON-locating step selects the first balanced \<^verbatim>\<open>{...}\<close> span of
  the response, so that of two disjoint objects the first alone is parsed. The source
  takes \<^verbatim>\<open>text[text.find('{') : text.rfind('}') + 1]\<close>: on two disjoint objects that is
  the text from the first object's opening brace to the second object's closing brace,
  not the first object. What holds: the span is
  selected exactly when a \<^verbatim>\<open>{\<close> is followed somewhere by a \<^verbatim>\<open>}\<close>, it runs from the first
  \<^verbatim>\<open>{\<close> of the text to the last \<^verbatim>\<open>}\<close> of the text, and that substring is what
  \<^verbatim>\<open>json.loads\<close> receives.
\<close>

theorem json_span_first_to_last:
  "(json_span text = Some s \<longleftrightarrow>
      (\<exists>pre mid suf. text = pre @ CHR ''{'' # mid @ CHR ''}'' # suf \<and> CHR ''{'' \<notin> set pre
          \<and> CHR ''}'' \<notin> set suf \<and> s = CHR ''{'' # mid @ [CHR ''}'']))
   \<and> (llm env = Some call \<longrightarrow> call (user_message scraped) = Some text \<longrightarrow>
        llm_data env scraped =
          (case json_span text of
             None \<Rightarrow> None
           | Some body \<Rightarrow> (case json_loads env body of Some (JObj data) \<Rightarrow> Some data | _ \<Rightarrow> None)))"
proof
  show "json_span text = Some s \<longleftrightarrow>
      (\<exists>pre mid suf. text = pre @ CHR ''{'' # mid @ CHR ''}'' # suf \<and> CHR ''{'' \<notin> set pre
          \<and> CHR ''}'' \<notin> set suf \<and> s = CHR ''{'' # mid @ [CHR ''}''])"
    using json_span_Some_decomp [of "text" s] json_span_decomp by blast
  show "llm env = Some call \<longrightarrow> call (user_message scraped) = Some text \<longrightarrow>
        llm_data env scraped =
          (case json_span text of
             None \<Rightarrow> None
           | Some body \<Rightarrow> (case json_loads env body of Some (JObj data) \<Rightarrow> Some data | _ \<Rightarrow> None))"
    by (simp add: llm_data_def)
qed

theorem json_span_first_to_last_witness:
  \<open>json_span ''Sure: {"a": {"b": 1}} done'' = Some ''{"a": {"b": 1}}''
   \<and> llm_data (reply_env ''{"a": 1}'' (JObj [(''a'', JInt 1)])) example_page = Some [(''a'', JInt 1)]\<close>
proof -
  let ?t = \<open>''Sure: {"a": {"b": 1}} done''\<close>
  let ?s = \<open>''{"a": {"b": 1}}''\<close>
  let ?u = \<open>''{"a": 1}''\<close>
  let ?env = "reply_env ?u (JObj [(''a'', JInt 1)])"
  have d: \<open>?t = ''Sure: '' @ CHR ''{'' # ''"a": {"b": 1}'' @ CHR ''}'' # '' done''
      \<and> CHR ''{'' \<notin> set ''Sure: '' \<and> CHR ''}'' \<notin> set '' done''
      \<and> ?s = CHR ''{'' # ''"a": {"b": 1}'' @ [CHR ''}'']\<close>
    by simp
  have a: "json_span ?t = Some ?s"
    using json_span_first_to_last [of ?t ?s] d by blast
  have l: "llm ?env = Some (\<lambda>msg. Some ?u)" by (simp add: reply_env_def)
  have s: "json_span ?u = Some ?u" by code_simp
  have b: "llm_data ?env example_page = Some [(''a'', JInt 1)]"
    using json_span_first_to_last [of ?u ?u ?env "\<lambda>msg. Some ?u" example_page] l
    by (simp add: s reply_env_def)
  show ?thesis using a b by blast
qed

theorem json_span_two_objects_counterexample:
  \<open>first_balanced_span ''{"a": 1} and {"b": 2}'' = Some ''{"a": 1}''
   \<and> json_span ''{"a": 1} and {"b": 2}'' = Some ''{"a": 1} and {"b": 2}''
   \<and> json_span ''{"a": 1} and {"b": 2}'' \<noteq> first_balanced_span ''{"a": 1} and {"b": 2}''\<close>
  by (simp add: first_balanced_span_def json_span_def find_char_def rfind_char_def py_slice_def)

text \<open>
  Claim C7. Without an LLM client \<^verbatim>\<open>analyze\<close> returns the fallback event, built from the
  page title by the stated formulas, in both front ends; for the title
  \<^verbatim>\<open>Example Domain\<close> and a content of 850 characters the five fields are
  \<^verbatim>\<open>Will 'Example Domain' predictions come true?\<close>, \<^verbatim>\<open>Based on: Example Domain\<close>,
  \<^verbatim>\<open>general\<close>, \<^verbatim>\<open>["Yes", "No", "Partially"]\<close> and 0.5.
\<close>

theorem analyze_fallback_formulas:
  "llm env = None \<longrightarrow>
     analyze env scraped =
       \<lparr>title = ''Will '' @ [CHR 0x27] @ take 50 (page_title scraped) @ [CHR 0x27]
                 @ '' predictions come true?'',
        description = ''Based on: '' @ page_title scraped, category = ''general'',
        options = [''Yes'', ''No'', ''Partially''], confidence = 0.5,
        source_url = page_url scraped\<rparr>
     \<and> analyze_scraper env scraped =
       \<lparr>title = ''Will '' @ [CHR 0x27] @ take 50 (page_title scraped) @ [CHR 0x27]
                 @ '' predictions come true?'',
        description = ''Based on: '' @ page_title scraped, category = ''general'',
        options = [''Yes'', ''No'', ''Partially''], confidence = 0.5,
        source_url = page_url scraped, resolution_date = ''2025-12-31T23:59:00-05:00''\<rparr>
     \<and> (page_title scraped = ''Example Domain'' \<longrightarrow> length (page_content scraped) = 850 \<longrightarrow>
          title (analyze env scraped) = ''Will 'Example Domain' predictions come true?''
          \<and> description (analyze env scraped) = ''Based on: Example Domain''
          \<and> category (analyze env scraped) = ''general''
          \<and> options (analyze env scraped) = [''Yes'', ''No'', ''Partially'']
          \<and> confidence (analyze env scraped) = 0.5
          \<and> title (analyze_scraper env scraped) = ''Will 'Example Domain' predictions come true?''
          \<and> description (analyze_scraper env scraped) = ''Based on: Example Domain''
          \<and> category (analyze_scraper env scraped) = ''general''
          \<and> options (analyze_scraper env scraped) = [''Yes'', ''No'', ''Partially'']
          \<and> confidence (analyze_scraper env scraped) = 0.5)"
  by (simp add: analyze_def analyze_scraper_def llm_data_def fallback_event_def
      fallback_event_scraper_def default_resolution_date_def)

theorem analyze_fallback_formulas_witness:
  "llm no_llm_env = None \<and> page_title example_page = ''Example Domain''
   \<and> length (page_content example_page) = 850
   \<and> analyze no_llm_env example_page =
       \<lparr>title = ''Will 'Example Domain' predictions come true?'',
        description = ''Based on: Example Domain'', category = ''general'',
        options = [''Yes'', ''No'', ''Partially''], confidence = 0.5,
        source_url = ''https://example.com/''\<rparr>"
proof -
  have h: "llm no_llm_env = None" by (simp add: no_llm_env_def)
  have p: "page_title example_page = ''Example Domain''" "length (page_content example_page) = 850"
    "page_url example_page = ''https://example.com/''"
    by (simp_all add: example_page_def)
  show ?thesis
    using analyze_fallback_formulas [of no_llm_env example_page] h p by simp
qed


lemma is_str_iff: "is_str v \<longleftrightarrow> (\<exists>s. validate_str v = Inr s)"
  by (cases v) (auto simp: is_str_def validate_str_def)

lemma is_str_list_iff: "is_str_list v \<longleftrightarrow> (\<exists>ss. validate_str_list v = Inr ss)"
proof (cases v)
  case (JArr xs)
  have "list_all is_str xs \<longleftrightarrow> (\<exists>ss. validate_str_items xs = Inr ss)"
  proof (induction xs)
    case Nil
    show ?case by simp
  next
    case (Cons x xs)
    show ?case
      by (cases "validate_str x"; cases "validate_str_items xs")
         (use Cons.IH in \<open>auto simp: is_str_iff\<close>)
  qed
  then show ?thesis by (simp add: JArr is_str_list_def validate_str_list_def)
qed (auto simp: is_str_list_def validate_str_list_def)

lemma field_ok_str:
  "field_ok is_str data k \<longleftrightarrow> (\<exists>s. validate_str (dict_get data k (JStr d)) = Inr s)"
  by (auto simp: field_ok_def dict_get_def is_str_iff validate_str_def split: option.splits)

lemma field_ok_str_list:
  "field_ok is_str_list data k \<longleftrightarrow>
     (\<exists>ss. validate_str_list (dict_get data k (JArr [JStr ''Yes'', JStr ''No''])) = Inr ss)"
  by (auto simp: field_ok_def dict_get_def is_str_list_iff validate_str_list_def validate_str_def
      split: option.splits)

lemma field_ok_float:
  "field_ok (is_floatable env) data k \<longleftrightarrow>
     (\<exists>r. py_float (float_of_str env) (dict_get data k (JFloat d)) = Inr r)"
  by (auto simp: field_ok_def dict_get_def is_floatable_def py_float_def
      split: option.splits sum.splits)

lemma event_from_data_valid:
  "present_fields_valid env data \<longleftrightarrow> (\<exists>ev. event_from_data env scraped data = Inr ev)"
  unfolding present_fields_valid_def
    field_ok_str [of data "''title''" "default_title scraped"]
    field_ok_str [of data "''description''" "default_description scraped"]
    field_ok_str [of data "''category''" "''general''"]
    field_ok_str_list field_ok_float [of env data "''confidence''" "0.7"]
    event_from_data_def
  by (auto split: sum.splits)

lemma event_from_data_scraper_valid:
  "present_fields_valid_scraper env data \<longleftrightarrow> (\<exists>ev. event_from_data_scraper env scraped data = Inr ev)"
  unfolding present_fields_valid_scraper_def event_from_data_valid [of env data scraped]
    field_ok_str [of data "''resolution_date''" default_resolution_date]
    event_from_data_scraper_def
  by (auto split: sum.splits)

lemma event_from_data_scraper_Inr:
  assumes "event_from_data_scraper env scraped data = Inr ev"
  shows "\<exists>ev0. event_from_data env scraped data = Inr ev0 \<and> title ev = title ev0
      \<and> description ev = description ev0 \<and> category ev = category ev0
      \<and> options ev = options ev0 \<and> confidence ev = confidence ev0
      \<and> validate_str (dict_get data ''resolution_date'' (JStr default_resolution_date))
          = Inr (resolution_date ev)"
  using assms by (auto simp: event_from_data_scraper_def split: sum.splits)

lemma null_field_invalid:
  assumes "dict_lookup data k = Some JNull"
    and "k \<in> {''title'', ''description'', ''category'', ''options'', ''confidence''}"
  shows "\<not> present_fields_valid env data"
  using assms
  by (auto simp: present_fields_valid_def field_ok_def is_str_def is_str_list_def is_floatable_def
      py_float_def)

lemma defaults_analyze:
  assumes d: "llm_data env scraped = Some data" and v: "present_fields_valid env data"
  shows "(dict_lookup data ''title'' = None \<longrightarrow> title (analyze env scraped) = default_title scraped)
    \<and> (dict_lookup data ''description'' = None \<longrightarrow>
          description (analyze env scraped) = take 200 (page_content scraped))
    \<and> (dict_lookup data ''category'' = None \<longrightarrow> category (analyze env scraped) = ''general'')
    \<and> (dict_lookup data ''options'' = None \<longrightarrow> options (analyze env scraped) = [''Yes'', ''No''])
    \<and> (dict_lookup data ''confidence'' = None \<longrightarrow> confidence (analyze env scraped) = 0.7)"
proof -
  from v obtain ev where e: "event_from_data env scraped data = Inr ev"
    using event_from_data_valid by blast
  then have a: "analyze env scraped = ev" by (simp add: analyze_def d)
  show ?thesis
    unfolding a using event_from_data_Inr [OF e]
    by (auto simp: dict_get_def validate_str_def validate_str_list_def py_float_def
        default_description_def)
qed

lemma defaults_analyze_scraper:
  assumes d: "llm_data env scraped = Some data" and v: "present_fields_valid_scraper env data"
  shows "(dict_lookup data ''title'' = None \<longrightarrow> title (analyze_scraper env scraped) = default_title scraped)
    \<and> (dict_lookup data ''description'' = None \<longrightarrow>
          description (analyze_scraper env scraped) = take 200 (page_content scraped))
    \<and> (dict_lookup data ''category'' = None \<longrightarrow> category (analyze_scraper env scraped) = ''general'')
    \<and> (dict_lookup data ''options'' = None \<longrightarrow> options (analyze_scraper env scraped) = [''Yes'', ''No''])
    \<and> (dict_lookup data ''confidence'' = None \<longrightarrow> confidence (analyze_scraper env scraped) = 0.7)
    \<and> (dict_lookup data ''resolution_date'' = None \<longrightarrow>
          resolution_date (analyze_scraper env scraped) = ''2025-12-31T23:59:00-05:00'')"
proof -
  from v obtain ev where e: "event_from_data_scraper env scraped data = Inr ev"
    using event_from_data_scraper_valid by blast
  then have a: "analyze_scraper env scraped = ev" by (simp add: analyze_scraper_def d)
  from event_from_data_scraper_Inr [OF e] obtain ev0 where
    e0: "event_from_data env scraped data = Inr ev0" and
    f: "title ev = title ev0" "description ev = description ev0" "category ev = category ev0"
       "options ev = options ev0" "confidence ev = confidence ev0" and
    r: "validate_str (dict_get data ''resolution_date'' (JStr default_resolution_date))
          = Inr (resolution_date ev)"
    by blast
  show ?thesis
    unfolding a f using event_from_data_Inr [OF e0] r
    by (auto simp: dict_get_def validate_str_def validate_str_list_def py_float_def
        default_description_def default_resolution_date_def)
qed

lemma invalid_analyze:
  assumes d: "llm_data env scraped = Some data"
  shows "\<not> present_fields_valid env data \<Longrightarrow> analyze env scraped = fallback_event scraped"
    and "\<not> present_fields_valid_scraper env data \<Longrightarrow>
           analyze_scraper env scraped = fallback_event_scraper scraped"
proof -
  show "\<not> present_fields_valid env data \<Longrightarrow> analyze env scraped = fallback_event scraped"
    using event_from_data_valid [of env data scraped]
    by (cases "event_from_data env scraped data") (auto simp: analyze_def d)
  show "\<not> present_fields_valid_scraper env data \<Longrightarrow>
           analyze_scraper env scraped = fallback_event_scraper scraped"
    using event_from_data_scraper_valid [of env data scraped]
    by (cases "event_from_data_scraper env scraped data") (auto simp: analyze_scraper_def d)
qed


text \<open>
  Claim C2. The claim: on the LLM path a required field that is missing from the parsed
  object, or present with the value \<^verbatim>\<open>null\<close>, is populated from its own default, and no
  field of an event is ever null or absent. \<^verbatim>\<open>data.get(key, default)\<close> returns the default
  only for an absent key; a \<^verbatim>\<open>null\<close> reaches the constructor, fails the model's validation
  (or \<^verbatim>\<open>float(None)\<close>), and the \<^verbatim>\<open>except\<close> clause sends \<^verbatim>\<open>analyze\<close> to the fallback
  event, whose title is not the LLM-path default.
  What holds: when every field present in the parsed object has a value of its type,
  each absent field takes its documented default; when one of the fields is present
  with \<^verbatim>\<open>null\<close>, the whole event is the fallback event. Either way every field of the
  event holds a value: the event types have no null.
\<close>

theorem analyze_missing_fields_defaulted:
  assumes "llm_data env scraped = Some data"
  shows "(present_fields_valid env data \<longrightarrow>
            (dict_lookup data ''title'' = None \<longrightarrow>
               title (analyze env scraped) = ''Prediction: '' @ take 60 (page_title scraped) @ ''?'')
          \<and> (dict_lookup data ''description'' = None \<longrightarrow>
               description (analyze env scraped) = take 200 (page_content scraped))
          \<and> (dict_lookup data ''category'' = None \<longrightarrow> category (analyze env scraped) = ''general'')
          \<and> (dict_lookup data ''options'' = None \<longrightarrow> options (analyze env scraped) = [''Yes'', ''No''])
          \<and> (dict_lookup data ''confidence'' = None \<longrightarrow> confidence (analyze env scraped) = 0.7))
       \<and> (present_fields_valid_scraper env data \<longrightarrow>
            (dict_lookup data ''title'' = None \<longrightarrow>
               title (analyze_scraper env scraped) = ''Prediction: '' @ take 60 (page_title scraped) @ ''?'')
          \<and> (dict_lookup data ''description'' = None \<longrightarrow>
               description (analyze_scraper env scraped) = take 200 (page_content scraped))
          \<and> (dict_lookup data ''category'' = None \<longrightarrow>
               category (analyze_scraper env scraped) = ''general'')
          \<and> (dict_lookup data ''options'' = None \<longrightarrow>
               options (analyze_scraper env scraped) = [''Yes'', ''No''])
          \<and> (dict_lookup data ''confidence'' = None \<longrightarrow> confidence (analyze_scraper env scraped) = 0.7)
          \<and> (dict_lookup data ''resolution_date'' = None \<longrightarrow>
               resolution_date (analyze_scraper env scraped) = ''2025-12-31T23:59:00-05:00''))
       \<and> (\<forall>k \<in> {''title'', ''description'', ''category'', ''options'', ''confidence''}.
            dict_lookup data k = Some JNull \<longrightarrow>
              analyze env scraped = fallback_event scraped
              \<and> analyze_scraper env scraped = fallback_event_scraper scraped)
       \<and> (dict_lookup data ''resolution_date'' = Some JNull \<longrightarrow>
            analyze_scraper env scraped = fallback_event_scraper scraped)"
proof (intro conjI)
  show "present_fields_valid env data \<longrightarrow>
            (dict_lookup data ''title'' = None \<longrightarrow>
               title (analyze env scraped) = ''Prediction: '' @ take 60 (page_title scraped) @ ''?'')
          \<and> (dict_lookup data ''description'' = None \<longrightarrow>
               description (analyze env scraped) = take 200 (page_content scraped))
          \<and> (dict_lookup data ''category'' = None \<longrightarrow> category (analyze env scraped) = ''general'')
          \<and> (dict_lookup data ''options'' = None \<longrightarrow> options (analyze env scraped) = [''Yes'', ''No''])
          \<and> (dict_lookup data ''confidence'' = None \<longrightarrow> confidence (analyze env scraped) = 0.7)"
    using defaults_analyze [OF assms] unfolding default_title_def by blast
  show "present_fields_valid_scraper env data \<longrightarrow>
            (dict_lookup data ''title'' = None \<longrightarrow>
               title (analyze_scraper env scraped) = ''Prediction: '' @ take 60 (page_title scraped) @ ''?'')
          \<and> (dict_lookup data ''description'' = None \<longrightarrow>
               description (analyze_scraper env scraped) = take 200 (page_content scraped))
          \<and> (dict_lookup data ''category'' = None \<longrightarrow>
               category (analyze_scraper env scraped) = ''general'')
          \<and> (dict_lookup data ''options'' = None \<longrightarrow>
               options (analyze_scraper env scraped) = [''Yes'', ''No''])
          \<and> (dict_lookup data ''confidence'' = None \<longrightarrow> confidence (analyze_scraper env scraped) = 0.7)
          \<and> (dict_lookup data ''resolution_date'' = None \<longrightarrow>
               resolution_date (analyze_scraper env scraped) = ''2025-12-31T23:59:00-05:00'')"
    using defaults_analyze_scraper [OF assms] unfolding default_title_def by blast
  show "\<forall>k \<in> {''title'', ''description'', ''category'', ''options'', ''confidence''}.
            dict_lookup data k = Some JNull \<longrightarrow>
              analyze env scraped = fallback_event scraped
              \<and> analyze_scraper env scraped = fallback_event_scraper scraped"
  proof (intro ballI impI)
    fix k
    assume k: "k \<in> {''title'', ''description'', ''category'', ''options'', ''confidence''}"
      and n: "dict_lookup data k = Some JNull"
    have i: "\<not> present_fields_valid env data" using null_field_invalid [OF n k] .
    then have "\<not> present_fields_valid_scraper env data"
      by (simp add: present_fields_valid_scraper_def)
    with i show "analyze env scraped = fallback_event scraped
              \<and> analyze_scraper env scraped = fallback_event_scraper scraped"
      using invalid_analyze [OF assms] by blast
  qed
  show "dict_lookup data ''resolution_date'' = Some JNull \<longrightarrow>
            analyze_scraper env scraped = fallback_event_scraper scraped"
  proof
    assume "dict_lookup data ''resolution_date'' = Some JNull"
    then have "\<not> present_fields_valid_scraper env data"
      by (simp add: present_fields_valid_scraper_def field_ok_def is_str_def)
    then show "analyze_scraper env scraped = fallback_event_scraper scraped"
      using invalid_analyze(2) [OF assms] by blast
  qed
qed

theorem analyze_missing_fields_defaulted_witness:
  \<open>title (analyze (reply_env ''{"category": "weather"}'' (JObj [(''category'', JStr ''weather'')]))
       example_page) = ''Prediction: Example Domain?''
   \<and> options (analyze_scraper (reply_env ''{"category": "weather"}''
       (JObj [(''category'', JStr ''weather'')])) example_page) = [''Yes'', ''No'']
   \<and> analyze (reply_env ''{"category": null}'' (JObj [(''category'', JNull)])) example_page
       = fallback_event example_page\<close>
proof -
  let ?t = \<open>''{"category": "weather"}''\<close>
  let ?d = "[(''category'', JStr ''weather'')]"
  let ?u = \<open>''{"category": null}''\<close>
  let ?n = "[(''category'', JNull)]"
  have s: "json_span ?t = Some ?t" "json_span ?u = Some ?u" by code_simp+
  have l: "llm_data (reply_env ?t (JObj ?d)) example_page = Some ?d"
    "llm_data (reply_env ?u (JObj ?n)) example_page = Some ?n"
    using s by (simp_all add: llm_data_def reply_env_def)
  have v: "present_fields_valid (reply_env ?t (JObj ?d)) ?d"
    "present_fields_valid_scraper (reply_env ?t (JObj ?d)) ?d"
    by (simp_all add: present_fields_valid_scraper_def present_fields_valid_def field_ok_def
        dict_lookup_def is_str_def)
  have m: "dict_lookup ?d ''title'' = None" "dict_lookup ?d ''options'' = None"
    "dict_lookup ?n ''category'' = Some JNull"
    by (simp_all add: dict_lookup_def)
  have p: "take 60 (page_title example_page) = ''Example Domain''"
    by (simp add: example_page_def)
  show ?thesis
    using analyze_missing_fields_defaulted [OF l(1)] analyze_missing_fields_defaulted [OF l(2)]
      v m p by simp
qed

theorem analyze_null_title_counterexample:
  \<open>llm_data (reply_env ''{"title": null}'' (JObj [(''title'', JNull)])) example_page
       = Some [(''title'', JNull)]
   \<and> title (analyze (reply_env ''{"title": null}'' (JObj [(''title'', JNull)])) example_page)
       = ''Will 'Example Domain' predictions come true?''
   \<and> title (analyze_scraper (reply_env ''{"title": null}'' (JObj [(''title'', JNull)])) example_page)
       = ''Will 'Example Domain' predictions come true?''
   \<and> title (analyze (reply_env ''{"title": null}'' (JObj [(''title'', JNull)])) example_page)
       \<noteq> ''Prediction: '' @ take 60 (page_title example_page) @ ''?''\<close>
proof -
  let ?u = \<open>''{"title": null}''\<close>
  let ?n = "[(''title'', JNull)]"
  have s: "json_span ?u = Some ?u" by code_simp
  have l: "llm_data (reply_env ?u (JObj ?n)) example_page = Some ?n"
    using s by (simp add: llm_data_def reply_env_def)
  have e: "event_from_data (reply_env ?u (JObj ?n)) example_page ?n = Inl ValidationError"
    by (simp add: event_from_data_def dict_get_def dict_lookup_def py_float_def validate_str_def)
  have a: "analyze (reply_env ?u (JObj ?n)) example_page = fallback_event example_page"
    by (simp add: analyze_def l e)
  have b: "analyze_scraper (reply_env ?u (JObj ?n)) example_page
      = fallback_event_scraper example_page"
    by (simp add: analyze_scraper_def event_from_data_scraper_def l e)
  have p: "page_title example_page = ''Example Domain''"
    by (simp add: example_page_def)
  have t: \<open>title (fallback_event example_page) = ''Will 'Example Domain' predictions come true?''\<close>
    \<open>title (fallback_event_scraper example_page) = ''Will 'Example Domain' predictions come true?''\<close>
    by (simp_all add: fallback_event_def fallback_event_scraper_def p)
  show ?thesis
    unfolding a b t p using l by simp
qed


section \<open>Properties of \<^verbatim>\<open>scrape_url\<close>\<close>

lemma find_tag_decompose:
  "find_tag nm t = None \<Longrightarrow> find_tag nm (decompose_noise t) = None"
  "find_tag_list nm ts = None \<Longrightarrow> find_tag_list nm (decompose_noise_list ts) = None"
  by (induction t and ts rule: decompose_noise_decompose_noise_list.induct)
     (auto split: if_splits option.splits, blast)

lemma main_content_length: "length (main_content soup) \<le> 5000"
  by (simp add: main_content_def split: option.splits)

lemma extract_page_None:
  "extract_page env url doc = None \<longleftrightarrow> length (main_content (decompose_noise_list doc)) < 100"
  by (simp add: extract_page_def Let_def)

lemma extract_page_Some:
  assumes "extract_page env url doc = Some p"
  shows "page_content p = main_content (decompose_noise_list doc)"
    and "100 \<le> length (page_content p)"
    and "page_title p = soup_title (decompose_noise_list doc)"
    and "page_url p = url" and "page_domain p = netloc env url"
  using assms by (auto simp: extract_page_def Let_def split: if_splits)

lemma fetch_attempts_three:
  "fetch_attempts get [0, 1, 2] =
     (case get 0 of Some r \<Rightarrow> Some r
      | None \<Rightarrow> (case get 1 of Some r \<Rightarrow> Some r | None \<Rightarrow> get 2))"
  by (simp split: option.splits)

lemma sample_content:
  "main_content (decompose_noise_list sample_doc)
     = replicate 60 (CHR ''a'') @ [CHR 0x0A] @ replicate 60 (CHR ''b'')"
proof -
  have n: "\<not> is_space (CHR ''a'')" "\<not> is_space (CHR ''b'')" by (simp_all add: is_space_def)
  have r: "strip (replicate 60 (CHR ''a'')) = replicate 60 (CHR ''a'')"
    "strip (replicate 60 (CHR ''b'')) = replicate 60 (CHR ''b'')"
    using n by (simp_all add: strip_def dropWhile_replicate)
  show ?thesis
    by (simp add: sample_doc_def noise_tags_def main_content_def main_element_def get_text_def r)
qed

lemma sample_scrape: "scrape_url sample_scrape_env url = Some (sample_page url)"
proof -
  have f: "fetch sample_scrape_env url = Some sample_doc"
    by (simp add: fetch_def sample_scrape_env_def)
  have n: "\<not> is_space (CHR ''E'')" "\<not> is_space (CHR ''n'')" "is_space (CHR '' '')"
    by (simp_all add: is_space_def)
  have t: "soup_title (decompose_noise_list sample_doc) = ''Example Domain''"
    by (simp add: sample_doc_def noise_tags_def soup_title_def get_text_def strip_def n)
  have d: "netloc sample_scrape_env url = ''example.com''"
    by (simp add: sample_scrape_env_def)
  show ?thesis
    by (simp add: scrape_url_def f extract_page_def Let_def t sample_content sample_page_def d)
qed

lemma scrape_nbsp_rejected:
  "extract_page env url
     [Tag ''body'' [Tag ''p'' [Text [CHR 0xA0]], Tag ''p'' [Text (replicate 98 (CHR ''a''))]]]
   = None"
proof -
  have n: "is_space (CHR 0xA0)" "\<not> is_space (CHR ''a'')" by (simp_all add: is_space_def)
  have r: "strip [CHR 0xA0] = []" "strip (replicate 98 (CHR ''a'')) = replicate 98 (CHR ''a'')"
    using n by (simp_all add: strip_def dropWhile_replicate)
  show ?thesis
    by (simp add: extract_page_def Let_def noise_tags_def main_content_def main_element_def
        get_text_def r)
qed

text \<open>
  Claim C8. Once a response has been fetched, \<^verbatim>\<open>scrape_url\<close> returns no page exactly when
  the text of the main element (after the script, style, nav, header, footer and aside
  elements are removed, cut to 5000 characters) is shorter than 100 characters. A page
  that is returned has that text as content, of 100 to 5000 characters, and the title
  \<^verbatim>\<open>Untitled\<close> when the document has no title element.
\<close>

theorem scrape_url_content_gate:
  assumes "fetch env url = Some doc"
  shows "(scrape_url env url = None \<longleftrightarrow> length (main_content (decompose_noise_list doc)) < 100)
       \<and> (\<forall>p. scrape_url env url = Some p \<longrightarrow>
             page_content p = main_content (decompose_noise_list doc)
             \<and> 100 \<le> length (page_content p) \<and> length (page_content p) \<le> 5000
             \<and> (find_tag_list ''title'' doc = None \<longrightarrow> page_title p = ''Untitled''))"
proof -
  have s: "scrape_url env url = extract_page env url doc"
    by (simp add: scrape_url_def assms)
  have "page_title p = ''Untitled''"
    if "extract_page env url doc = Some p" and "find_tag_list ''title'' doc = None" for p
    using extract_page_Some(3) [OF that(1)] find_tag_decompose(2) [OF that(2)]
    by (simp add: soup_title_def)
  then show ?thesis
    unfolding s using extract_page_None [of env url doc] extract_page_Some(1,2) [of env url doc]
      main_content_length [of "decompose_noise_list doc"]
    by auto
qed

theorem scrape_url_content_gate_witness:
  "fetch sample_scrape_env ''https://example.com/'' = Some sample_doc
   \<and> scrape_url sample_scrape_env ''https://example.com/''
       = Some \<lparr>page_title = ''Example Domain'',
               page_content = replicate 60 (CHR ''a'') @ [CHR 0x0A] @ replicate 60 (CHR ''b''),
               page_url = ''https://example.com/'', page_domain = ''example.com''\<rparr>
   \<and> length (main_content (decompose_noise_list sample_doc)) = 121"
proof -
  have f: "fetch sample_scrape_env ''https://example.com/'' = Some sample_doc"
    by (simp add: fetch_def sample_scrape_env_def)
  have l: "length (main_content (decompose_noise_list sample_doc)) = 121"
    by (simp add: sample_content)
  have s: "scrape_url sample_scrape_env ''https://example.com/''
      = Some (sample_page ''https://example.com/'')"
    by (rule sample_scrape)
  have "page_content (sample_page ''https://example.com/'')
      = main_content (decompose_noise_list sample_doc)
    \<and> 100 \<le> length (page_content (sample_page ''https://example.com/''))"
    using scrape_url_content_gate [OF f] s by simp
  then show ?thesis using f s l by (simp add: sample_page_def)
qed

section \<open>Properties of the publisher\<close>

text \<open>
  Claim C6. The claim: a response holding \<^verbatim>\<open>id\<close>, \<^verbatim>\<open>market_id\<close> and \<^verbatim>\<open>event_id\<close> yields
  the value of \<^verbatim>\<open>id\<close> whatever the values are, also for an \<^verbatim>\<open>id\<close> of 0 or the empty
  string. The source chains the lookups with \<^verbatim>\<open>or\<close>, which tests truth, not presence: an
  \<^verbatim>\<open>id\<close> of 0 is passed over and the value of \<^verbatim>\<open>market_id\<close> is returned. What holds: the identifier is the first of the
  three values that is true in Python's sense (not \<^verbatim>\<open>None\<close>, \<^verbatim>\<open>False\<close>, zero or empty),
  and the value of \<^verbatim>\<open>event_id\<close> (or \<^verbatim>\<open>None\<close>) when neither \<^verbatim>\<open>id\<close> nor \<^verbatim>\<open>market_id\<close> is;
  so a true \<^verbatim>\<open>id\<close> is always the one returned, in both front ends.
\<close>

theorem extract_id_first_truthy:
  "extract_id data =
     (if truthy (dict_get_none data ''id'') then dict_get_none data ''id''
      else if truthy (dict_get_none data ''market_id'') then dict_get_none data ''market_id''
      else dict_get_none data ''event_id'')
   \<and> (\<forall>i. dict_lookup data ''id'' = Some i \<longrightarrow> truthy i \<longrightarrow> extract_id data = i)
   \<and> event_id_of (JObj data) = extract_id data
   \<and> (health_status env = Some 200 \<longrightarrow> http_post env (payload_scraper env ev) = Some (JObj data)
        \<longrightarrow> post_to_blockchain_scraper env ev = Inr (extract_id data))"
  by (auto simp: extract_id_def py_or_def dict_get_none_def dict_get_def event_id_of_def
      post_to_blockchain_scraper_def)

theorem extract_id_first_truthy_witness:
  "extract_id [(''id'', JStr ''ev-7''), (''market_id'', JStr ''m-1''), (''event_id'', JStr ''e-1'')]
     = JStr ''ev-7''
   \<and> post_to_blockchain_scraper
        \<lparr>health_status = Some 200,
         http_post = (\<lambda>p. Some (JObj [(''id'', JStr ''ev-7''), (''market_id'', JStr ''m-1'')])),
         source_netloc = (\<lambda>u. ''example.com'')\<rparr>
        (fallback_event_scraper example_page) = Inr (JStr ''ev-7'')"
proof -
  let ?d = "[(''id'', JStr ''ev-7''), (''market_id'', JStr ''m-1''), (''event_id'', JStr ''e-1'')]"
  let ?d2 = "[(''id'', JStr ''ev-7''), (''market_id'', JStr ''m-1'')]"
  let ?env = "\<lparr>health_status = Some 200, http_post = (\<lambda>p. Some (JObj ?d2)),
         source_netloc = (\<lambda>u. ''example.com'')\<rparr>"
  have l: "dict_lookup ?d ''id'' = Some (JStr ''ev-7'')" "dict_lookup ?d2 ''id'' = Some (JStr ''ev-7'')"
    by (simp_all add: dict_lookup_def)
  have t: "truthy (JStr ''ev-7'')" by simp
  have a: "extract_id ?d = JStr ''ev-7''"
    using extract_id_first_truthy [of ?d] l t by blast
  have h: "health_status ?env = Some 200"
    "http_post ?env (payload_scraper ?env (fallback_event_scraper example_page)) = Some (JObj ?d2)"
    by simp_all
  have b: "post_to_blockchain_scraper ?env (fallback_event_scraper example_page)
      = Inr (extract_id ?d2)"
    using extract_id_first_truthy [of ?d2 ?env "fallback_event_scraper example_page"] h by blast
  have c: "extract_id ?d2 = JStr ''ev-7''"
    using extract_id_first_truthy [of ?d2] l t by blast
  show ?thesis using a b c by simp
qed

theorem extract_id_zero_counterexample:
  "dict_lookup sample_response ''id'' = Some (JInt 0)
   \<and> dict_lookup sample_response ''market_id'' = Some (JStr ''m-1'')
   \<and> dict_lookup sample_response ''event_id'' = Some (JStr ''e-1'')
   \<and> extract_id sample_response = JStr ''m-1''
   \<and> extract_id sample_response \<noteq> JInt 0
   \<and> post_to_blockchain_scraper
        \<lparr>health_status = Some 200, http_post = (\<lambda>p. Some (JObj sample_response)),
         source_netloc = (\<lambda>u. ''example.com'')\<rparr>
        (fallback_event_scraper example_page) = Inr (JStr ''m-1'')"
  by (simp add: sample_response_def dict_lookup_def extract_id_def py_or_def dict_get_none_def
      dict_get_def post_to_blockchain_scraper_def)

section \<open>Properties of \<^verbatim>\<open>parse_rss\<close>\<close>

text \<open>
  Claim C4. The claim: each entry of a parsed feed gives an item whose summary is the
  entry's summary, or its description when the summary is missing, cut to 200
  characters, and every missing field (title, link, summary, published) renders as the
  empty string. The source gives a missing title the default \<^verbatim>\<open>Untitled\<close>. What holds: the summary is as claimed; a
  missing link, summary (with no description) or published renders as the empty string
  and a missing title as \<^verbatim>\<open>Untitled\<close>; a field that is present is copied.
\<close>

theorem parse_rss_items:
  assumes "parse_rss feedparser_parse url = Some feed"
  shows "\<exists>parsed. feedparser_parse url = Some parsed
           \<and> feed_items feed = map feed_item (entries parsed)
           \<and> (\<forall>entry \<in> set (entries parsed).
                 item_summary (feed_item entry) =
                   take 200 (case entry ''summary'' of
                               Some s \<Rightarrow> s
                             | None \<Rightarrow> (case entry ''description'' of Some d \<Rightarrow> d | None \<Rightarrow> []))
                 \<and> (entry ''title'' = None \<longrightarrow> item_title (feed_item entry) = ''Untitled'')
                 \<and> (entry ''link'' = None \<longrightarrow> item_link (feed_item entry) = [])
                 \<and> (entry ''published'' = None \<longrightarrow> item_published (feed_item entry) = [])
                 \<and> (\<forall>v. entry ''title'' = Some v \<longrightarrow> item_title (feed_item entry) = v)
                 \<and> (\<forall>v. entry ''link'' = Some v \<longrightarrow> item_link (feed_item entry) = v)
                 \<and> (\<forall>v. entry ''published'' = Some v \<longrightarrow> item_published (feed_item entry) = v))"
proof -
  from assms obtain parsed where p: "feedparser_parse url = Some parsed"
    and f: "feed_items feed = map feed_item (entries parsed)"
    by (auto simp: parse_rss_def split: option.splits if_splits)
  have "\<forall>entry \<in> set (entries parsed).
                 item_summary (feed_item entry) =
                   take 200 (case entry ''summary'' of
                               Some s \<Rightarrow> s
                             | None \<Rightarrow> (case entry ''description'' of Some d \<Rightarrow> d | None \<Rightarrow> []))
                 \<and> (entry ''title'' = None \<longrightarrow> item_title (feed_item entry) = ''Untitled'')
                 \<and> (entry ''link'' = None \<longrightarrow> item_link (feed_item entry) = [])
                 \<and> (entry ''published'' = None \<longrightarrow> item_published (feed_item entry) = [])
                 \<and> (\<forall>v. entry ''title'' = Some v \<longrightarrow> item_title (feed_item entry) = v)
                 \<and> (\<forall>v. entry ''link'' = Some v \<longrightarrow> item_link (feed_item entry) = v)
                 \<and> (\<forall>v. entry ''published'' = Some v \<longrightarrow> item_published (feed_item entry) = v)"
    by (simp add: feed_item_def str_get_def)
  with p f show ?thesis by blast
qed

theorem parse_rss_items_witness:
  "parse_rss (\<lambda>u. Some sample_feed) ''https://example.com/rss''
     = Some \<lparr>feed_title = ''News'', feed_link = ''https://example.com/rss'',
             feed_items = [\<lparr>item_title = ''Untitled'', item_link = ''https://example.com/a'',
                            item_summary = ''Rain tomorrow'', item_published = []\<rparr>]\<rparr>"
proof -
  let ?feed = "\<lparr>feed_title = ''News'', feed_link = ''https://example.com/rss'',
             feed_items = map feed_item (entries sample_feed)\<rparr>"
  have a: "parse_rss (\<lambda>u. Some sample_feed) ''https://example.com/rss'' = Some ?feed"
    by (simp add: parse_rss_def sample_feed_def str_get_def)
  from parse_rss_items [OF a]
  have "\<forall>entry \<in> set (entries sample_feed).
      item_summary (feed_item entry) =
        take 200 (case entry ''summary'' of
                    Some s \<Rightarrow> s
                  | None \<Rightarrow> (case entry ''description'' of Some d \<Rightarrow> d | None \<Rightarrow> []))
      \<and> (entry ''title'' = None \<longrightarrow> item_title (feed_item entry) = ''Untitled'')
      \<and> (entry ''published'' = None \<longrightarrow> item_published (feed_item entry) = [])
      \<and> (\<forall>v. entry ''link'' = Some v \<longrightarrow> item_link (feed_item entry) = v)"
    by simp
  then have "feed_item [''description'' \<mapsto> ''Rain tomorrow'', ''link'' \<mapsto> ''https://example.com/a'']
      = \<lparr>item_title = ''Untitled'', item_link = ''https://example.com/a'',
         item_summary = ''Rain tomorrow'', item_published = []\<rparr>"
    by (simp add: sample_feed_def)
  then show ?thesis using a by (simp add: sample_feed_def)
qed

theorem parse_rss_missing_title_counterexample:
  "parse_rss (\<lambda>u. Some \<lparr>bozo = False, feed_meta = Map.empty,
                          entries = [[''link'' \<mapsto> ''https://example.com/b'']]\<rparr>)
      ''https://example.com/rss''
     = Some \<lparr>feed_title = ''Unknown Feed'', feed_link = ''https://example.com/rss'',
             feed_items = [\<lparr>item_title = ''Untitled'', item_link = ''https://example.com/b'',
                            item_summary = [], item_published = []\<rparr>]\<rparr>
   \<and> [''link'' \<mapsto> ''https://example.com/b''] ''title'' = None
   \<and> item_title (feed_item [''link'' \<mapsto> ''https://example.com/b'']) \<noteq> []"
  by (simp add: parse_rss_def feed_item_def str_get_def)


section \<open>Properties of the interactive session\<close>

lemma split_acc_Nil: "split_acc cur s = [] \<Longrightarrow> cur = []"
  by (induction s arbitrary: cur) (auto split: if_splits)

lemma split_nonempty: "split s = first # rest \<Longrightarrow> s \<noteq> []"
  by (auto simp: split_def)



lemma isdecimal_isdigit: "isdecimal s \<Longrightarrow> isdigit s"
  by (simp add: isdecimal_def isdigit_def list_all_iff)

lemma dispatch_select:
  assumes "split cmd = first # rest" and "isdecimal (lower first)" and "last_rss_items st \<noteq> []"
  shows "dispatch w st cmd = select_flow w st (int_of_digits (lower first)) (join '' '' rest)"
  using assms isdecimal_isdigit [OF assms(2)] by (simp add: dispatch_def Let_def py_int_def)

lemma dispatch_superscript:
  assumes "split cmd = first # rest" and "isdigit (lower first)" and "\<not> isdecimal (lower first)"
    and "last_rss_items st \<noteq> []"
  shows "dispatch w st cmd = ([], Raised ValueError)"
  using assms by (simp add: dispatch_def Let_def py_int_def)


lemma step_dispatch:
  assumes "split (strip raw) = first # rest"
  shows "interactive_step w st (Line raw) = dispatch w st (strip raw)"
  using split_nonempty [OF assms] by (simp add: interactive_step_def)

lemma sample_parse:
  "parse_rss (w_feedparser sample_world) ''https://example.com/rss''
     = Some \<lparr>feed_title = ''News'', feed_link = ''https://example.com/rss'',
             feed_items = [sample_item]\<rparr>"
  by (simp add: sample_world_def parse_rss_def sample_feed_def feed_item_def str_get_def
      sample_item_def)

lemma sample_world_fields:
  "w_scrape sample_world = sample_scrape_env" "w_synth sample_world = no_llm_env"
  "w_clipboard sample_world = Some ''https://example.com/rss''"
  "w_confirm sample_world = Line ''YES''"
  by (simp_all add: sample_world_def)

lemma analyze_no_llm: "analyze no_llm_env page = fallback_event page"
  by (simp add: analyze_def llm_data_def no_llm_env_def)

lemma tokens:
  "split (strip ''1 json'') = [''1'', ''json'']" "split (strip ''2'') = [''2'']"
  "split (strip ''-1'') = [''-1'']" "split (strip ''1'') = [''1'']"
  "split (strip ''post'') = [''post'']" "split (strip ''v'') = [''v'']"
  "split (strip ''https://example.com/rss'') = [''https://example.com/rss'']"
  by code_simp+

lemma strips:
  "strip ''-1'' = ''-1''" "strip ''1'' = ''1''" "strip ''v'' = ''v''" "strip ''post'' = ''post''"
  "strip ''https://example.com/rss'' = ''https://example.com/rss''"
  by code_simp+

lemma tokens_plain:
  "split ''-1'' = [''-1'']" "split ''1'' = [''1'']" "split ''v'' = [''v'']"
  "split ''post'' = [''post'']"
  "split ''https://example.com/rss'' = [''https://example.com/rss'']"
  "contains ''json'' (lower ''json'')"
  by code_simp+

lemma token_facts:
  "lower ''1'' = ''1''" "lower ''2'' = ''2''" "lower ''-1'' = ''-1''" "lower ''post'' = ''post''"
  "lower ''v'' = ''v''" "lower ''https://example.com/rss'' = ''https://example.com/rss''"
  "isdigit ''1''" "isdigit ''2''" "\<not> isdigit ''-1''" "\<not> isdigit ''v''"
  "\<not> isdigit ''https://example.com/rss''"
  "int_of_digits ''1'' = 1" "int_of_digits ''2'' = 2"
  "contains ''json'' (lower (join '' '' [''json'']))"
  "is_url ''https://example.com/rss''" "\<not> is_url ''-1''" "\<not> is_url ''1''"
  "lower (strip ''YES'') = ''yes''" "lower (strip ''n'') = ''n''" "lower (strip '' y '') = ''y''"
  by code_simp+

lemma select_by_number:
  assumes "split (strip raw) = first # rest" and "isdecimal (lower first)"
    and "last_rss_items st \<noteq> []"
  shows "(int_of_digits (lower first) < 1 \<or> length (last_rss_items st) < int_of_digits (lower first)
            \<longrightarrow> interactive_step w st (Line raw)
                  = ([Say (InvalidArticle (length (last_rss_items st)))], Continue st))
       \<and> (1 \<le> int_of_digits (lower first) \<and> int_of_digits (lower first) \<le> length (last_rss_items st)
            \<longrightarrow> CallScrape (item_link (last_rss_items st ! (int_of_digits (lower first) - 1)))
                    \<in> set (fst (interactive_step w st (Line raw)))
              \<and> (scrape_url (w_scrape w)
                     (item_link (last_rss_items st ! (int_of_digits (lower first) - 1))) = None
                   \<longrightarrow> snd (interactive_step w st (Line raw)) = Continue st)
              \<and> (\<forall>data. scrape_url (w_scrape w)
                     (item_link (last_rss_items st ! (int_of_digits (lower first) - 1))) = Some data
                   \<longrightarrow> snd (interactive_step w st (Line raw))
                         = (if contains ''json'' (lower (join '' '' rest))
                               \<or> contains ''xml'' (lower (join '' '' rest))
                            then Continue (st\<lparr>last_event := Some (analyze (w_synth w) data)\<rparr>)
                            else Raised AttributeError)))"
  unfolding step_dispatch [OF assms(1)] dispatch_select [OF assms]
  by (auto simp: select_flow_def Let_def split: option.splits)

lemma select_negative_is_unknown:
  "interactive_step sample_world listed_session (Line ''-1'')
       = ([Say (UnknownCommand ''-1'')], Continue listed_session)
   \<and> interactive_step sample_world empty_session (Line ''1'')
       = ([Say (UnknownCommand ''1'')], Continue empty_session)"
proof -
  have a: "interactive_step sample_world listed_session (Line ''-1'')
       = ([Say (UnknownCommand ''-1'')], Continue listed_session)"
    using step_dispatch [OF tokens(3), of sample_world listed_session]
    by (simp add: dispatch_def tokens token_facts autodetect_flow_def strips tokens_plain Let_def)
  have b: "interactive_step sample_world empty_session (Line ''1'')
       = ([Say (UnknownCommand ''1'')], Continue empty_session)"
    using step_dispatch [OF tokens(4), of sample_world empty_session]
    by (simp add: dispatch_def tokens token_facts autodetect_flow_def empty_session_def strips
        tokens_plain Let_def)
  show ?thesis using a b by simp
qed

text \<open>
  Claim C9. The claim: with a listing of \<open>n\<close> items, a first token that is an integer
  outside 1 to \<open>n\<close> reports the out-of-range error and leaves the state unchanged, and an
  integer from 1 to \<open>n\<close> runs the pipeline on that item's link and, on success, replaces
  \<^verbatim>\<open>last_event\<close>. On the plain input \<^verbatim>\<open>1\<close> with one listed article whose page scrapes, the
  loop scrapes the link, assigns the event and then builds the panel from
  \<^verbatim>\<open>last_event.resolution_date\<close>, a field that the \<^verbatim>\<open>PredictionEvent\<close> of \<^verbatim>\<open>cli.py\<close> does
  not have: \<^verbatim>\<open>AttributeError\<close>, which the loop does not catch, so the session ends
  instead of holding the new event. The panels of \<^verbatim>\<open>scrape\<close>, of paste and of a typed
  URL do not read that field. The same input with \<^verbatim>\<open>json\<close> does store the event, and
  the input \<^verbatim>\<open>2\<close> reports the range error and leaves the state unchanged.
\<close>

theorem select_plain_number_raises:
  "last_rss_items listed_session = [sample_item]
   \<and> scrape_url (w_scrape sample_world) (item_link sample_item)
       = Some (sample_page ''https://example.com/a'')
   \<and> interactive_step sample_world listed_session (Line ''1'')
       = ([Say (ScrapingArticle 1 ''Untitled''), CallScrape ''https://example.com/a''],
          Raised AttributeError)
   \<and> snd (interactive_step sample_world listed_session (Line ''1 json''))
       = Continue (listed_session\<lparr>last_event :=
            Some (fallback_event (sample_page ''https://example.com/a''))\<rparr>)
   \<and> interactive_step sample_world listed_session (Line ''2'')
       = ([Say (InvalidArticle 1)], Continue listed_session)"
proof -
  have i: "last_rss_items listed_session = [sample_item]"
    "item_link sample_item = ''https://example.com/a''" "item_title sample_item = ''Untitled''"
    by (simp_all add: listed_session_def sample_item_def)
  have s: "scrape_url (w_scrape sample_world) ''https://example.com/a''
      = Some (sample_page ''https://example.com/a'')"
    by (simp add: sample_world_fields sample_scrape)
  have n: "\<not> contains ''json'' (lower [])" "\<not> contains ''xml'' (lower [])"
    "contains ''json'' (lower ''json'')"
    by code_simp+
  have d: "isdecimal (lower ''1'')" "isdecimal (lower ''2'')" by code_simp+
  have e: "last_rss_items listed_session \<noteq> []" by (simp add: i)
  have a: "interactive_step sample_world listed_session (Line ''1'')
      = ([Say (ScrapingArticle 1 ''Untitled''), CallScrape ''https://example.com/a''],
         Raised AttributeError)"
    unfolding step_dispatch [OF tokens(4)] dispatch_select [OF tokens(4) d(1) e]
    by (simp add: select_flow_def Let_def token_facts i s n)
  have b: "snd (interactive_step sample_world listed_session (Line ''1 json''))
      = Continue (listed_session\<lparr>last_event :=
            Some (fallback_event (sample_page ''https://example.com/a''))\<rparr>)"
    unfolding step_dispatch [OF tokens(1)] dispatch_select [OF tokens(1) d(1) e]
    by (simp add: select_flow_def Let_def token_facts i n sample_scrape sample_world_fields
        analyze_no_llm)
  have c: "interactive_step sample_world listed_session (Line ''2'')
      = ([Say (InvalidArticle 1)], Continue listed_session)"
    unfolding step_dispatch [OF tokens(2)] dispatch_select [OF tokens(2) d(2) e]
    by (simp add: select_flow_def Let_def token_facts i)
  show ?thesis using i s a b c by simp
qed





text \<open>
  Claim C5. The claim: pasting a clipboard text that starts with \<^verbatim>\<open>http://\<close> or
  \<^verbatim>\<open>https://\<close> behaves as typing that text does; in particular a feed updates
  \<^verbatim>\<open>last_rss_items\<close> to its first three items so that a number selects an article
  afterwards. The paste branch lists the feed but never assigns \<^verbatim>\<open>last_rss_items\<close>,
  which the branch for a typed URL does: after the paste the state is unchanged and the
  input \<^verbatim>\<open>1\<close> is an unknown command.
\<close>

theorem paste_feed_not_stored:
  "w_clipboard sample_world = Some ''https://example.com/rss''
   \<and> interactive_step sample_world empty_session (Line ''v'')
       = ([CallClipboardRead, Say (Pasted ''https://example.com/rss''),
           CallParseRss ''https://example.com/rss'', Say (FeedDetected ''News'' [sample_item])],
          Continue empty_session)
   \<and> interactive_step sample_world empty_session (Line ''https://example.com/rss'')
       = ([CallParseRss ''https://example.com/rss'', Say (FeedDetected ''News'' [sample_item]),
           Say AutoTip],
          Continue (empty_session\<lparr>last_rss_items := [sample_item]\<rparr>))
   \<and> interactive_step sample_world empty_session (Line ''1'')
       = ([Say (UnknownCommand ''1'')], Continue empty_session)"
proof -
  have e: "last_rss_items empty_session = []" by (simp add: empty_session_def)
  have a: "interactive_step sample_world empty_session (Line ''v'')
       = ([CallClipboardRead, Say (Pasted ''https://example.com/rss''),
           CallParseRss ''https://example.com/rss'', Say (FeedDetected ''News'' [sample_item])],
          Continue empty_session)"
    using step_dispatch [OF tokens(6), of sample_world empty_session]
    by (simp add: dispatch_def tokens token_facts paste_flow_def sample_world_fields sample_parse
        strips tokens_plain Let_def)
  have b: "interactive_step sample_world empty_session (Line ''https://example.com/rss'')
       = ([CallParseRss ''https://example.com/rss'', Say (FeedDetected ''News'' [sample_item]),
           Say AutoTip],
          Continue (empty_session\<lparr>last_rss_items := [sample_item]\<rparr>))"
    using step_dispatch [OF tokens(7), of sample_world empty_session]
    by (simp add: dispatch_def tokens token_facts autodetect_flow_def sample_parse strips tokens_plain Let_def)
  have c: "interactive_step sample_world empty_session (Line ''1'')
       = ([Say (UnknownCommand ''1'')], Continue empty_session)"
    using step_dispatch [OF tokens(4), of sample_world empty_session]
    by (simp add: dispatch_def tokens token_facts autodetect_flow_def e strips tokens_plain Let_def)
  show ?thesis using a b c by (simp add: sample_world_fields)
qed


end
